theory Spec2Isabelle
  imports Main "HOL-Library.Sublist"
begin

section \<open>Strings and numbers of the source language\<close>

text \<open>
  The programs are TypeScript. Their strings are modelled as \<^typ>\<open>string\<close>, for ASCII
  text (the output of \<^verbatim>\<open>smartctl\<close>, device paths, mount points), and their numbers
  as \<^typ>\<open>int\<close>: byte counts, temperatures and timestamps are integers, on which the
  arithmetic of the source is exact below \<open>2^53\<close>.
\<close>

definition isSpace :: "char \<Rightarrow> bool" where
  \<comment> \<open>the class \<^verbatim>\<open>\s\<close> of a regular expression, and what \<^verbatim>\<open>trim\<close> strips, on ASCII:
      tab, line feed, vertical tab, form feed, carriage return, space\<close>
  "isSpace c = (c \<in> set [CHR 0x09, CHR 0x0A, CHR 0x0B, CHR 0x0C, CHR 0x0D, CHR 0x20])"

definition isDigit :: "char \<Rightarrow> bool" where
  "isDigit c = (c \<in> set ''0123456789'')"

definition isLetter :: "char \<Rightarrow> bool" where
  \<comment> \<open>\<^verbatim>\<open>[a-z]\<close> under the flag \<^verbatim>\<open>i\<close>\<close>
  "isLetter c = (c \<in> set ''abcdefghijklmnopqrstuvwxyzABCDEFGHIJKLMNOPQRSTUVWXYZ'')"

definition toUpperChar :: "char \<Rightarrow> char" where
  "toUpperChar c =
     (let n = (of_char c :: nat) in if 97 \<le> n \<and> n \<le> 122 then char_of (n - 32) else c)"

definition toUpperCase :: "string \<Rightarrow> string" where
  "toUpperCase s = map toUpperChar s"

fun splitChar :: "char \<Rightarrow> string \<Rightarrow> string list" where
  \<comment> \<open>\<^verbatim>\<open>s.split(sep)\<close> for a separator of one character\<close>
  "splitChar sep [] = [[]]"
| "splitChar sep (c # cs) =
     (if c = sep then [] # splitChar sep cs
      else (case splitChar sep cs of [] \<Rightarrow> [[c]] | l # ls \<Rightarrow> (c # l) # ls))"

definition trim :: "string \<Rightarrow> string" where
  "trim s = rev (dropWhile isSpace (rev (dropWhile isSpace s)))"

function splitWs :: "string \<Rightarrow> string list" where
  \<comment> \<open>\<^verbatim>\<open>s.split(/\s+/)\<close>: the pieces between the maximal runs of whitespace\<close>
  "splitWs s =
     (case dropWhile (\<lambda>c. \<not> isSpace c) s of
        [] \<Rightarrow> [s]
      | _ # _ \<Rightarrow> takeWhile (\<lambda>c. \<not> isSpace c) s
                 # splitWs (dropWhile isSpace (dropWhile (\<lambda>c. \<not> isSpace c) s)))"
  by pat_completeness auto
termination
proof (relation "measure length")
  show "wf (measure length)" by simp
next
  fix s :: string and x xs
  assume a: "dropWhile (\<lambda>c. \<not> isSpace c) s = x # xs"
  have "isSpace x"
    using a hd_dropWhile [of "\<lambda>c. \<not> isSpace c" s] by auto
  then have "length (dropWhile isSpace (x # xs)) \<le> length xs"
    by (simp add: length_dropWhile_le)
  moreover have "length (x # xs) \<le> length s"
    using a length_dropWhile_le [of "\<lambda>c. \<not> isSpace c" s] by simp
  ultimately show "(dropWhile isSpace (dropWhile (\<lambda>c. \<not> isSpace c) s), s) \<in> measure length"
    using a by simp
qed

declare splitWs.simps [simp del]

definition digitValue :: "char \<Rightarrow> int" where
  "digitValue c = int (of_char c) - 48"

definition parseInt :: "string \<Rightarrow> int option" where
  \<comment> \<open>\<^verbatim>\<open>Number.parseInt(s, 10)\<close>: leading whitespace, an optional sign, then the longest
      run of decimal digits; \<open>None\<close> is \<^verbatim>\<open>NaN\<close> (no digit there)\<close>
  "parseInt s =
     (let t = dropWhile isSpace s;
          neg = (t \<noteq> [] \<and> hd t = CHR ''-'');
          u = (if t \<noteq> [] \<and> (hd t = CHR ''-'' \<or> hd t = CHR ''+'') then tl t else t);
          ds = takeWhile isDigit u
      in if ds = [] then None
         else Some ((if neg then -1 else 1) * foldl (\<lambda>acc c. acc * 10 + digitValue c) 0 ds))"

section \<open>The SMART probe: \<^verbatim>\<open>parseSmartTemperature\<close>, \<^verbatim>\<open>parseSmartHealth\<close>\<close>

definition matches194 :: "string \<Rightarrow> bool" where
  \<comment> \<open>\<^verbatim>\<open>/^\s*194\s+/.test(line)\<close>: the first character after the leading whitespace
      must be \<^verbatim>\<open>1\<close>, so \<^verbatim>\<open>\s*\<close> takes all of the leading whitespace\<close>
  "matches194 line =
     (let r = dropWhile isSpace line
      in prefix ''194'' r \<and> (case drop 3 r of [] \<Rightarrow> False | c # _ \<Rightarrow> isSpace c))"

definition mentionsTemperature :: "string \<Rightarrow> bool" where
  \<comment> \<open>\<^verbatim>\<open>/Temperature_Celsius|Temperature_Internal/.test(line)\<close>\<close>
  "mentionsTemperature line =
     (sublist ''Temperature_Celsius'' line \<or> sublist ''Temperature_Internal'' line)"

definition rawValue :: "string \<Rightarrow> string option" where
  \<comment> \<open>\<^verbatim>\<open>line.trim().split(/\s+/)[9]\<close>; \<open>None\<close> is \<^verbatim>\<open>undefined\<close>\<close>
  "rawValue line =
     (let cols = splitWs (trim line) in if 9 < length cols then Some (cols ! 9) else None)"

fun scanLines :: "string list \<Rightarrow> int option" where
  \<comment> \<open>the \<^verbatim>\<open>for\<close> loop of \<^verbatim>\<open>parseSmartTemperature\<close>\<close>
  "scanLines [] = None"
| "scanLines (line # rest) =
     (if matches194 line \<and> mentionsTemperature line then
        (case rawValue line of
           None \<Rightarrow> scanLines rest
         | Some raw \<Rightarrow>
             if raw \<noteq> [] then
               (case parseInt raw of Some temperature \<Rightarrow> Some temperature
                | None \<Rightarrow> scanLines rest)
             else scanLines rest)
      else scanLines rest)"

definition parseSmartTemperature :: "string \<Rightarrow> int option" where
  "parseSmartTemperature stdout = scanLines (splitChar (CHR 0x0A) stdout)"

definition healthPhrase :: string where
  "healthPhrase = ''SMART overall-health self-assessment test result:''"

definition isStatusChar :: "char \<Rightarrow> bool" where
  \<comment> \<open>\<^verbatim>\<open>[A-Z_]\<close> under the flag \<^verbatim>\<open>i\<close>\<close>
  "isStatusChar c = (isLetter c \<or> c = CHR ''_'')"

definition healthMatchAt :: "string \<Rightarrow> string option" where
  \<comment> \<open>the expression
      \<^verbatim>\<open>/SMART overall-health self-assessment test result:\s*([A-Z_]+)/i\<close>
      matched at the start of \<open>s\<close>; the result is its group 1\<close>
  "healthMatchAt s =
     (if toUpperCase (take (length healthPhrase) s) = toUpperCase healthPhrase then
        (let token = takeWhile isStatusChar (dropWhile isSpace (drop (length healthPhrase) s))
         in if token = [] then None else Some token)
      else None)"

fun healthMatch :: "string \<Rightarrow> string option" where
  \<comment> \<open>\<^verbatim>\<open>stdout.match(...)\<close>: the leftmost position where the expression matches\<close>
  "healthMatch [] = healthMatchAt []"
| "healthMatch (c # cs) =
     (case healthMatchAt (c # cs) of Some token \<Rightarrow> Some token | None \<Rightarrow> healthMatch cs)"

definition parseSmartHealth :: "string \<Rightarrow> string option \<times> bool option" where
  \<comment> \<open>the pair is \<^verbatim>\<open>{ overallStatus?, healthy? }\<close>\<close>
  "parseSmartHealth stdout =
     (case healthMatch stdout of
        None \<Rightarrow> (None, None)
      | Some token \<Rightarrow>
          (let status = toUpperCase token
           in if status = [] then (None, None)
              else if status = ''PASSED'' then (Some ''PASSED'', Some True)
              else if status = ''FAILED'' then (Some ''FAILED'', Some False)
              else (Some status, Some False)))"

section \<open>The health cache: \<^verbatim>\<open>getSmartData\<close>\<close>

record SmartData =
  temperature :: "int option"
  overallStatus :: "string option"
  healthy :: "bool option"

record CacheEntry = SmartData +
  timestamp :: int

text \<open>
  The state of the module is the map \<^verbatim>\<open>smartDataCache\<close>; \<open>execLog\<close> records every
  command handed to \<^verbatim>\<open>execAsync\<close>, in order. The external tool is the parameter
  \<open>execAsync\<close>: the standard output of a command, or \<open>None\<close> when its promise rejects
  (the tool cannot be started, exits with a failure, times out).
\<close>

record World =
  smartDataCache :: "string \<rightharpoonup> CacheEntry"
  execLog :: "string list"

definition SMART_CACHE_DURATION_MS :: int where
  "SMART_CACHE_DURATION_MS = 60000"

definition cacheFresh :: "int \<Rightarrow> CacheEntry option \<Rightarrow> bool" where
  \<comment> \<open>\<^verbatim>\<open>cached && now - cached.timestamp < SMART_CACHE_DURATION_MS\<close>\<close>
  "cacheFresh now cached =
     (case cached of None \<Rightarrow> False
      | Some c \<Rightarrow> now - timestamp c < SMART_CACHE_DURATION_MS)"

definition probeSmartData ::
  "(string \<Rightarrow> string option) \<Rightarrow> int \<Rightarrow> string \<Rightarrow> World \<Rightarrow> SmartData \<times> World" where
  \<comment> \<open>the \<^verbatim>\<open>try\<close>/\<^verbatim>\<open>catch\<close> of \<^verbatim>\<open>getSmartData\<close>: both commands are started before either
      result is awaited\<close>
  "probeSmartData execAsync now devicePath w =
     (let attributesCmd = ''smartctl -A '' @ devicePath;
          healthCmd = ''smartctl -H '' @ devicePath;
          w1 = w\<lparr>execLog := execLog w @ [attributesCmd, healthCmd]\<rparr>
      in case (execAsync attributesCmd, execAsync healthCmd) of
           (Some attributesOut, Some healthOut) \<Rightarrow>
             (let temp = parseSmartTemperature attributesOut;
                  healthData = parseSmartHealth healthOut
              in (\<lparr>temperature = temp, overallStatus = fst healthData,
                   healthy = snd healthData\<rparr>,
                  w1\<lparr>smartDataCache := (smartDataCache w1)(devicePath \<mapsto>
                       \<lparr>temperature = temp, overallStatus = fst healthData,
                        healthy = snd healthData, timestamp = now\<rparr>)\<rparr>))
         | _ \<Rightarrow>
             (\<lparr>temperature = None, overallStatus = None, healthy = None\<rparr>,
              w1\<lparr>smartDataCache := (smartDataCache w1)(devicePath \<mapsto>
                   \<lparr>temperature = None, overallStatus = None, healthy = None,
                    timestamp = now\<rparr>)\<rparr>))"

definition getSmartData ::
  "(string \<Rightarrow> string option) \<Rightarrow> int \<Rightarrow> string \<Rightarrow> World \<Rightarrow> SmartData \<times> World" where
  \<comment> \<open>\<open>now\<close> is the value of \<^verbatim>\<open>Date.now()\<close>\<close>
  "getSmartData execAsync now devicePath w =
     (let cached = smartDataCache w devicePath
      in if cacheFresh now cached then
           (case cached of
              Some c \<Rightarrow> (\<lparr>temperature = temperature c, overallStatus = overallStatus c,
                          healthy = healthy c\<rparr>, w)
            | None \<Rightarrow> probeSmartData execAsync now devicePath w)
         else probeSmartData execAsync now devicePath w)"


section \<open>The storage load mapper: \<^verbatim>\<open>DynamicStorageMapper\<close>\<close>

text \<open>
  The records hold the fields the mapper reads. \<open>device\<close> of a block device is optional
  in the type of the system-information library. The imports of the module that are not
  part of the sources are parameters: \<^verbatim>\<open>CONFIG.fs_type_filter\<close>,
  \<^verbatim>\<open>CONFIG.enable_smart_temps\<close> and the function \<^verbatim>\<open>fromHost\<close>.
\<close>

record Disk =
  device :: string

record StorageLayoutEntry =
  size :: int
  disks :: "Disk list"
  virtual :: bool
  raidLabel :: "string option"
  raidName :: "string option"

record Block =
  name :: string
  device :: "string option"
  label :: string
  uuid :: string
  type :: string
  fsType :: string
  mount :: string

record Size =
  mount :: string
  fs :: string
  type :: string
  used :: int
  size :: int

record Env =
  fs_type_filter :: "string list"
  enable_smart_temps :: bool
  fromHost :: "string \<Rightarrow> string"

record StorageLoadExtendedEntry = SmartData +
  load :: int

record DynamicStorageMapper =
  hostWin32 :: bool
  layout :: "StorageLayoutEntry list"
  blocks :: "Block list"
  sizes :: "Size list"
  validSizes :: "Size list"

definition sumUp :: "'a list \<Rightarrow> ('a \<Rightarrow> int) \<Rightarrow> int" where
  \<comment> \<open>Modelled from the spec: \<^verbatim>\<open>sumUp\<close> is imported from the package
      \<^verbatim>\<open>@dashdot/common\<close>, which is not part of the sources; the specification calls
      \<^verbatim>\<open>sumUp(sizes, 'used')\<close> the summed \<^verbatim>\<open>used\<close> across the matched records.\<close>
  "sumUp arr key = foldl (\<lambda>acc cur. acc + key cur) 0 arr"

definition normalizeDevicePath :: "string \<Rightarrow> string" where
  "normalizeDevicePath d = (if prefix ''/dev/'' d then d else ''/dev/'' @ d)"

definition isSataDevice :: "string \<Rightarrow> bool" where
  \<comment> \<open>\<^verbatim>\<open>SMART_SATA_DEVICE_REGEX.test(d)\<close>, the expression \<^verbatim>\<open>/^\/dev\/sd[a-z]+$/i\<close>\<close>
  "isSataDevice d =
     (toUpperCase (take 7 d) = ''/DEV/SD'' \<and> drop 7 d \<noteq> [] \<and> list_all isLetter (drop 7 d))"

definition newSet :: "'a list \<Rightarrow> 'a list" where
  \<comment> \<open>\<^verbatim>\<open>[...new Set(xs)]\<close>: the elements in the order of their first occurrence\<close>
  "newSet xs = foldl (\<lambda>acc x. if x \<in> set acc then acc else acc @ [x]) [] xs"

definition truthy :: "string \<Rightarrow> bool" where
  \<comment> \<open>a string used as a condition: the empty string is false\<close>
  "truthy s = (s \<noteq> [])"

definition getValidSizes :: "Env \<Rightarrow> bool \<Rightarrow> Size list \<Rightarrow> Size list" where
  "getValidSizes env win32 szs =
     filter (\<lambda>s. (win32 \<or> prefix (fromHost env ''/'') (Size.mount s)) \<and>
                 Size.type s \<notin> set (fs_type_filter env)) szs"

definition newDynamicStorageMapper ::
  "Env \<Rightarrow> bool \<Rightarrow> StorageLayoutEntry list \<Rightarrow> Block list \<Rightarrow> Size list \<Rightarrow> DynamicStorageMapper"
  where
  \<comment> \<open>the constructor\<close>
  "newDynamicStorageMapper env win32 lay blks szs =
     \<lparr>hostWin32 = win32, layout = lay, blocks = blks, sizes = szs,
      validSizes = getValidSizes env win32 szs\<rparr>"

definition getBlocksForDisks :: "DynamicStorageMapper \<Rightarrow> Disk list \<Rightarrow> Block list" where
  "getBlocksForDisks m ds =
     filter (\<lambda>b. list_ex (\<lambda>d. if hostWin32 m then Some (Disk.device d) = Block.device b
                              else prefix (Disk.device d) (name b)) ds) (blocks m)"

definition getBlocksForRaid ::
  "DynamicStorageMapper \<Rightarrow> string option \<Rightarrow> string option \<Rightarrow> Block list" where
  "getBlocksForRaid m rLabel rName =
     filter (\<lambda>b. (case rLabel of None \<Rightarrow> False | Some l \<Rightarrow> truthy l \<and> prefix l (label b)) \<or>
                 (case rName of None \<Rightarrow> False | Some n \<Rightarrow> truthy n \<and> prefix n (name b)))
       (blocks m)"

definition getBlocksForXfs :: "DynamicStorageMapper \<Rightarrow> Block list \<Rightarrow> Block list" where
  "getBlocksForXfs m parts =
     filter (\<lambda>b. Block.type b = ''md'' \<and> fsType b = ''xfs'' \<and>
                 list_ex (\<lambda>part. uuid part = uuid b) parts) (blocks m)"

definition isRootMount :: "Env \<Rightarrow> DynamicStorageMapper \<Rightarrow> string \<Rightarrow> bool" where
  "isRootMount env m mnt =
     (\<not> hostWin32 m \<and> (mnt = fromHost env ''/'' \<or> prefix (fromHost env ''/boot'') mnt))"

definition sizeMatches :: "Env \<Rightarrow> DynamicStorageMapper \<Rightarrow> Block list \<Rightarrow> bool \<Rightarrow> Size \<Rightarrow> bool"
  where
  \<comment> \<open>the predicate of the filter in \<^verbatim>\<open>getSizeForBlocks\<close>\<close>
  "sizeMatches env m deviceBlocks isHost sz =
     list_ex (\<lambda>block.
        let matchedByMount =
              (truthy (Size.mount sz) \<and>
               (Block.mount block = Size.mount sz \<or>
                suffix (''dev-disk-by-uuid-'' @ uuid block) (Size.mount sz)));
            matchedByDevice =
              (case Block.device block of None \<Rightarrow> False
               | Some d \<Rightarrow> truthy d \<and> prefix d (fs sz));
            matchedByHost = (isHost \<and> isRootMount env m (Size.mount sz))
        in matchedByMount \<or> matchedByDevice \<or> matchedByHost) deviceBlocks"

definition getSizeForBlocks ::
  "Env \<Rightarrow> DynamicStorageMapper \<Rightarrow> Block list \<Rightarrow> int \<Rightarrow> bool \<Rightarrow> int" where
  "getSizeForBlocks env m deviceBlocks diskSize isHost =
     (let szs = filter (sizeMatches env m deviceBlocks isHost) (validSizes m)
      in if length szs = 0 then - 1
         else
           (let calculatedSize = sumUp szs used;
                isLvm = list_ex (\<lambda>b. fsType b = ''LVM2_member'') deviceBlocks
            in if isLvm then calculatedSize
               else
                 (let totalAvailable = sumUp szs Size.size;
                      preAllocated = max 0 (diskSize - totalAvailable)
                  in calculatedSize + preAllocated)))"


definition smartCandidatesOf :: "Disk list \<Rightarrow> string list" where
  "smartCandidatesOf ds =
     filter isSataDevice (newSet (map (\<lambda>d. normalizeDevicePath (Disk.device d)) ds))"

definition aggregateSmartData :: "SmartData list \<Rightarrow> SmartData" where
  \<comment> \<open>the values of the variables \<^verbatim>\<open>temperature\<close>, \<^verbatim>\<open>overallStatus\<close> and \<^verbatim>\<open>healthy\<close>
      after the aggregation over \<^verbatim>\<open>smartData\<close>\<close>
  "aggregateSmartData smartData =
     (let availableTemps = map the (filter (\<lambda>t. t \<noteq> None) (map temperature smartData));
          temp = (case availableTemps of [] \<Rightarrow> None | t # ts \<Rightarrow> Some (foldl max t ts))
      in if list_ex (\<lambda>entry. overallStatus entry = Some ''FAILED'') smartData then
           \<lparr>temperature = temp, overallStatus = Some ''FAILED'', healthy = Some False\<rparr>
         else if list_ex (\<lambda>entry. overallStatus entry = Some ''PASSED'') smartData then
           \<lparr>temperature = temp, overallStatus = Some ''PASSED'', healthy = Some True\<rparr>
         else \<lparr>temperature = temp, overallStatus = None, healthy = None\<rparr>)"

text \<open>
  \<^verbatim>\<open>getMappedLayout\<close> starts the callbacks of all layout entries, and in each of them the
  calls of \<^verbatim>\<open>getSmartData\<close> for all candidates, before any of the calls is resumed: each
  call reads the clock and the cache up to its first \<^verbatim>\<open>await\<close>. So every call reads the
  cache \<open>w0\<close> as it was when \<^verbatim>\<open>getMappedLayout\<close> was called, and the calls that miss it
  start their commands and write the cache later. One value of the clock and one behaviour
  of the tool are taken for the whole run; the writes are applied in the order of the calls.
\<close>

definition fetchSmartData ::
  "(string \<Rightarrow> string option) \<Rightarrow> int \<Rightarrow> World \<Rightarrow> string list \<Rightarrow> World \<Rightarrow> SmartData list \<times> World"
  where
  "fetchSmartData execAsync now w0 paths w =
     (map (\<lambda>p. fst (getSmartData execAsync now p w0)) paths,
      foldl (\<lambda>w' p. if cacheFresh now (smartDataCache w0 p) then w'
                     else snd (probeSmartData execAsync now p w')) w paths)"

definition entryHealth ::
  "Env \<Rightarrow> (string \<Rightarrow> string option) \<Rightarrow> int \<Rightarrow> World \<Rightarrow> StorageLayoutEntry \<Rightarrow> World
     \<Rightarrow> SmartData \<times> World" where
  "entryHealth env execAsync now w0 e w =
     (let unknown = \<lparr>temperature = None, overallStatus = None, healthy = None\<rparr>
      in if enable_smart_temps env \<and> length (disks e) > 0 then
           (let smartCandidates = smartCandidatesOf (disks e)
            in if length smartCandidates > 0 then
                 (let (smartData, w') = fetchSmartData execAsync now w0 smartCandidates w
                  in (aggregateSmartData smartData, w'))
               else (unknown, w))
         else (unknown, w))"

definition deviceBlocksOf :: "DynamicStorageMapper \<Rightarrow> StorageLayoutEntry \<Rightarrow> Block list" where
  \<comment> \<open>the value of \<^verbatim>\<open>deviceBlocks\<close> in the callback\<close>
  "deviceBlocksOf m e =
     (let deviceParts = getBlocksForDisks m (disks e)
      in deviceParts @ getBlocksForRaid m (raidLabel e) (raidName e)
           @ getBlocksForXfs m deviceParts)"

definition isHostOf :: "Env \<Rightarrow> DynamicStorageMapper \<Rightarrow> StorageLayoutEntry \<Rightarrow> bool" where
  \<comment> \<open>the value of \<^verbatim>\<open>isHost\<close> in the callback\<close>
  "isHostOf env m e = list_ex (\<lambda>b. isRootMount env m (Block.mount b)) (deviceBlocksOf m e)"

definition entryLoad :: "Env \<Rightarrow> DynamicStorageMapper \<Rightarrow> StorageLayoutEntry \<Rightarrow> int" where
  \<comment> \<open>the field \<^verbatim>\<open>load\<close> of the object the callback returns\<close>
  "entryLoad env m e =
     (if virtual e then
        (case find (\<lambda>s. case disks e of [] \<Rightarrow> False | d # _ \<Rightarrow> fs s = Disk.device d)
                (sizes m) of
           None \<Rightarrow> 0
         | Some virtualSize \<Rightarrow> used virtualSize)
      else getSizeForBlocks env m (deviceBlocksOf m e) (StorageLayoutEntry.size e)
             (isHostOf env m e))"

definition mapEntry ::
  "Env \<Rightarrow> (string \<Rightarrow> string option) \<Rightarrow> int \<Rightarrow> DynamicStorageMapper \<Rightarrow> World
     \<Rightarrow> StorageLayoutEntry \<Rightarrow> World \<Rightarrow> StorageLoadExtendedEntry \<times> World" where
  \<comment> \<open>the callback of \<^verbatim>\<open>this.layout.map\<close>\<close>
  "mapEntry env execAsync now m w0 e w =
     (let (h, w') = entryHealth env execAsync now w0 e w
      in (\<lparr>temperature = temperature h, overallStatus = overallStatus h,
           healthy = healthy h, load = entryLoad env m e\<rparr>, w'))"

fun mapEntries ::
  "Env \<Rightarrow> (string \<Rightarrow> string option) \<Rightarrow> int \<Rightarrow> DynamicStorageMapper \<Rightarrow> World
     \<Rightarrow> StorageLayoutEntry list \<Rightarrow> World \<Rightarrow> StorageLoadExtendedEntry list \<times> World" where
  "mapEntries env execAsync now m w0 [] w = ([], w)"
| "mapEntries env execAsync now m w0 (e # es) w =
     (let (out, w1) = mapEntry env execAsync now m w0 e w;
          (outs, w2) = mapEntries env execAsync now m w0 es w1
      in (out # outs, w2))"

definition getMappedLayout ::
  "Env \<Rightarrow> (string \<Rightarrow> string option) \<Rightarrow> int \<Rightarrow> DynamicStorageMapper \<Rightarrow> World
     \<Rightarrow> StorageLoadExtendedEntry list \<times> World" where
  "getMappedLayout env execAsync now m w0 = mapEntries env execAsync now m w0 (layout m) w0"

section \<open>The protocol adapter\<close>

text \<open>
  The values the adapter handles are the values of the language at run time: what
  \<^verbatim>\<open>JSON.parse\<close> returns, and the objects of the mapper. An object is the list of its
  own properties, each key once.
\<close>

datatype jsval =
    JUndefined | JNull | JBool bool | JNumber int | JString string
  | JArray "jsval list" | JObject "(string \<times> jsval) list"

datatype error = TypeError | SyntaxError | FetchError

fun mapE :: "('a \<Rightarrow> error + 'b) \<Rightarrow> 'a list \<Rightarrow> error + 'b list" where
  \<comment> \<open>\<^verbatim>\<open>xs.map(f)\<close> for a callback that may throw\<close>
  "mapE f [] = Inr []"
| "mapE f (x # xs) =
     (case f x of
        Inl e \<Rightarrow> Inl e
      | Inr y \<Rightarrow> (case mapE f xs of Inl e \<Rightarrow> Inl e | Inr ys \<Rightarrow> Inr (y # ys)))"

fun loadOf :: "jsval \<Rightarrow> error + jsval" where
  \<comment> \<open>\<^verbatim>\<open>item.load\<close>\<close>
  "loadOf (JObject kvs) = Inr (case map_of kvs ''load'' of None \<Rightarrow> JUndefined | Some v \<Rightarrow> v)"
| "loadOf JUndefined = Inl TypeError"
| "loadOf JNull = Inl TypeError"
| "loadOf _ = Inr JUndefined"

fun isNumber :: "jsval \<Rightarrow> bool" where
  \<comment> \<open>\<^verbatim>\<open>typeof v === 'number'\<close>\<close>
  "isNumber (JNumber _) = True"
| "isNumber _ = False"

definition toLegacyStorageLoad :: "jsval list \<Rightarrow> error + jsval list" where
  "toLegacyStorageLoad storage =
     mapE (\<lambda>item. if isNumber item then Inr item else loadOf item) storage"

definition entryValue :: "StorageLoadExtendedEntry \<Rightarrow> jsval" where
  \<comment> \<open>the object \<^verbatim>\<open>{ load, temperature, overallStatus, healthy }\<close> that the mapper returns\<close>
  "entryValue e =
     JObject [(''load'', JNumber (load e)),
              (''temperature'', case temperature e of None \<Rightarrow> JUndefined | Some t \<Rightarrow> JNumber t),
              (''overallStatus'', case overallStatus e of None \<Rightarrow> JUndefined | Some s \<Rightarrow> JString s),
              (''healthy'', case healthy e of None \<Rightarrow> JUndefined | Some b \<Rightarrow> JBool b)]"

definition isExtendedItem :: "jsval \<Rightarrow> bool" where
  \<comment> \<open>\<^verbatim>\<open>item && typeof item === "object" && typeof item.load === "number"\<close>\<close>
  "isExtendedItem item =
     (case item of
        JObject kvs \<Rightarrow> (case map_of kvs ''load'' of Some v \<Rightarrow> isNumber v | None \<Rightarrow> False)
      | _ \<Rightarrow> False)"

definition wrapLegacy :: "jsval list \<Rightarrow> jsval list" where
  \<comment> \<open>\<^verbatim>\<open>.map((load) => ({ load }))\<close>\<close>
  "wrapLegacy xs = map (\<lambda>l. JObject [(''load'', l)]) xs"

definition extendedUrl :: string where
  "extendedUrl = ''/load/storage-extended''"

definition legacyUrl :: string where
  "legacyUrl = ''/load/storage''"

text \<open>
  \<open>fetchText\<close> is the body of the response for a path (\<open>None\<close> when the request fails)
  and \<open>JSON_parse\<close> is \<^verbatim>\<open>JSON.parse\<close> (\<open>None\<close> when it throws). The second component
  of the result lists the paths requested, in order.
\<close>

definition fetchLegacy ::
  "(string \<Rightarrow> string option) \<Rightarrow> (string \<Rightarrow> jsval option) \<Rightarrow> error + jsval list" where
  "fetchLegacy fetchText JSON_parse =
     (case fetchText legacyUrl of
        None \<Rightarrow> Inl FetchError
      | Some result \<Rightarrow>
          if length result = 0 then Inr []
          else (case JSON_parse result of
                  None \<Rightarrow> Inl SyntaxError
                | Some (JArray xs) \<Rightarrow> Inr (wrapLegacy xs)
                | Some _ \<Rightarrow> Inl TypeError))"

definition getCurrentStorageLoadAsync ::
  "(string \<Rightarrow> string option) \<Rightarrow> (string \<Rightarrow> jsval option)
     \<Rightarrow> (error + jsval list) \<times> string list" where
  "getCurrentStorageLoadAsync fetchText JSON_parse =
     (case fetchText extendedUrl of
        None \<Rightarrow> (Inl FetchError, [extendedUrl])
      | Some extendedResult \<Rightarrow>
          if length extendedResult > 0 then
            (case JSON_parse extendedResult of
               None \<Rightarrow> (Inl SyntaxError, [extendedUrl])
             | Some extendedData \<Rightarrow>
                 (case extendedData of
                    JArray items \<Rightarrow>
                      if list_all isExtendedItem items then (Inr items, [extendedUrl])
                      else (fetchLegacy fetchText JSON_parse, [extendedUrl, legacyUrl])
                  | _ \<Rightarrow> (fetchLegacy fetchText JSON_parse, [extendedUrl, legacyUrl])))
          else (fetchLegacy fetchText JSON_parse, [extendedUrl, legacyUrl]))"


section \<open>Notions used by the properties\<close>

definition firstField :: "string \<Rightarrow> string" where
  \<comment> \<open>the first whitespace-separated field of a line\<close>
  "firstField line = (case splitWs (trim line) of [] \<Rightarrow> [] | f # _ \<Rightarrow> f)"

definition isCandidate :: "string \<Rightarrow> bool" where
  "isCandidate line = (firstField line = ''194'' \<and> mentionsTemperature line)"

definition lineTemperature :: "string \<Rightarrow> int option" where
  \<comment> \<open>the integer parsed from the raw-value column of a line, if there is one\<close>
  "lineTemperature line = (case rawValue line of None \<Rightarrow> None | Some raw \<Rightarrow> parseInt raw)"

definition matchedSizes :: "Env \<Rightarrow> DynamicStorageMapper \<Rightarrow> StorageLayoutEntry \<Rightarrow> Size list" where
  \<comment> \<open>the valid filesystem-size records that match a backing block device of the entry\<close>
  "matchedSizes env m e =
     filter (sizeMatches env m (deviceBlocksOf m e) (isHostOf env m e)) (validSizes m)"

definition entrySmartData ::
  "Env \<Rightarrow> (string \<Rightarrow> string option) \<Rightarrow> int \<Rightarrow> World \<Rightarrow> StorageLayoutEntry \<Rightarrow> SmartData list"
  where
  \<comment> \<open>the records fetched for the SMART candidates of an entry; none when polling is
      disabled\<close>
  "entrySmartData env execAsync now w0 e =
     (if enable_smart_temps env
      then map (\<lambda>p. fst (getSmartData execAsync now p w0)) (smartCandidatesOf (disks e))
      else [])"

definition knownTemperatures :: "SmartData list \<Rightarrow> int list" where
  "knownTemperatures smartData =
     concat (map (\<lambda>d. case temperature d of None \<Rightarrow> [] | Some t \<Rightarrow> [t]) smartData)"

definition unknownSmartData :: SmartData where
  "unknownSmartData = \<lparr>temperature = None, overallStatus = None, healthy = None\<rparr>"

definition hasExtendedShape :: "jsval \<Rightarrow> bool" where
  \<comment> \<open>an array whose every element is an object with a numeric \<^verbatim>\<open>load\<close>\<close>
  "hasExtendedShape v = (case v of JArray items \<Rightarrow> list_all isExtendedItem items | _ \<Rightarrow> False)"

section \<open>Example inputs\<close>

definition emptyWorld :: World where
  "emptyWorld = \<lparr>smartDataCache = Map.empty, execLog = []\<rparr>"

definition toolFails :: "string \<Rightarrow> string option" where
  "toolFails cmd = None"

definition toolAnswers :: "string \<Rightarrow> string option" where
  \<comment> \<open>\<^verbatim>\<open>/dev/sda\<close> is at 40 degrees and passes, \<^verbatim>\<open>/dev/sdb\<close> is at 55 degrees and fails,
      every other device cannot be read\<close>
  "toolAnswers cmd =
     (if cmd = ''smartctl -A /dev/sda'' then
        Some ''194 Temperature_Celsius 0x0022 040 045 000 Old_age Always - 40 (Min/Max 20/45)''
      else if cmd = ''smartctl -H /dev/sda'' then
        Some ''SMART overall-health self-assessment test result: PASSED''
      else if cmd = ''smartctl -A /dev/sdb'' then
        Some ''194 Temperature_Celsius 0x0022 055 060 000 Old_age Always - 55''
      else if cmd = ''smartctl -H /dev/sdb'' then
        Some ''SMART overall-health self-assessment test result: FAILED!''
      else None)"

definition exampleEnv :: Env where
  "exampleEnv =
     \<lparr>fs_type_filter = [''squashfs'', ''tmpfs''], enable_smart_temps = True,
      fromHost = (\<lambda>p. ''/mnt/host'' @ p)\<rparr>"

definition plainEntry :: StorageLayoutEntry where
  "plainEntry =
     \<lparr>StorageLayoutEntry.size = 1000, disks = [\<lparr>Disk.device = ''sda''\<rparr>], virtual = False,
      raidLabel = None, raidName = None\<rparr>"

definition mirrorEntry :: StorageLayoutEntry where
  \<comment> \<open>two disks, none of them among the block devices\<close>
  "mirrorEntry =
     \<lparr>StorageLayoutEntry.size = 2000, disks = [\<lparr>Disk.device = ''sda''\<rparr>, \<lparr>Disk.device = ''/dev/sdb''\<rparr>], virtual = False,
      raidLabel = Some ''nas:0'', raidName = None\<rparr>"

definition virtualEntry :: StorageLayoutEntry where
  "virtualEntry =
     \<lparr>StorageLayoutEntry.size = 500, disks = [\<lparr>Disk.device = ''overlay''\<rparr>], virtual = True,
      raidLabel = None, raidName = None\<rparr>"

definition exampleBlock :: "string \<Rightarrow> Block" where
  \<comment> \<open>the partition \<^verbatim>\<open>sda1\<close> with a given filesystem type\<close>
  "exampleBlock fsT =
     \<lparr>name = ''sda1'', device = Some ''/dev/sda'', label = [], uuid = ''0a1b'',
      Block.type = ''part'', fsType = fsT, Block.mount = ''/mnt/host/data''\<rparr>"

definition exampleSizes :: "Size list" where
  "exampleSizes =
     [\<lparr>mount = ''/mnt/host/data'', fs = ''/dev/sda1'', type = ''ext4'', used = 100, size = 150\<rparr>,
      \<lparr>mount = ''/mnt/host/home'', fs = ''/dev/sda2'', type = ''ext4'', used = 200, size = 250\<rparr>,
      \<lparr>mount = ''/var/lib/docker'', fs = ''overlay'', type = ''tmpfs'', used = 42, size = 64\<rparr>]"

definition exampleMapper :: "string \<Rightarrow> DynamicStorageMapper" where
  "exampleMapper fsT =
     newDynamicStorageMapper exampleEnv False [plainEntry, virtualEntry]
       [exampleBlock fsT] exampleSizes"

definition unmatchedMapper :: DynamicStorageMapper where
  \<comment> \<open>the block devices are those of another disk\<close>
  "unmatchedMapper =
     newDynamicStorageMapper exampleEnv False [virtualEntry, mirrorEntry, plainEntry]
       [\<lparr>name = ''nvme0n1p1'', device = Some ''/dev/nvme0n1'', label = [], uuid = ''7c7d'',
         Block.type = ''part'', fsType = ''ext4'', Block.mount = ''/mnt/host/fast''\<rparr>] exampleSizes"

definition unmountedMapper :: DynamicStorageMapper where
  \<comment> \<open>the partition of the disk is there, and the only filesystem is on another disk\<close>
  "unmountedMapper =
     newDynamicStorageMapper exampleEnv False [plainEntry] [exampleBlock ''ext4'']
       [\<lparr>Size.mount = ''/mnt/host/backup'', fs = ''/dev/sdc1'', type = ''ext4'', used = 7,
         size = 9\<rparr>]"

definition raidEntry :: StorageLayoutEntry where
  "raidEntry =
     \<lparr>StorageLayoutEntry.size = 2000, disks = [\<lparr>Disk.device = ''sdx''\<rparr>], virtual = False,
      raidLabel = Some ''nas:0'', raidName = None\<rparr>"

definition raidMapper :: DynamicStorageMapper where
  \<comment> \<open>no block device has a name that starts with \<^verbatim>\<open>sdx\<close>; the array \<^verbatim>\<open>md0\<close> carries the
      label of the entry and is mounted\<close>
  "raidMapper =
     newDynamicStorageMapper exampleEnv False [raidEntry]
       [\<lparr>name = ''md0'', device = Some ''/dev/md0'', label = ''nas:0'', uuid = ''5e5f'',
         Block.type = ''raid1'', fsType = ''ext4'', Block.mount = ''/mnt/host/raid''\<rparr>]
       [\<lparr>Size.mount = ''/mnt/host/raid'', fs = ''/dev/md0'', type = ''ext4'', used = 50,
         size = 100\<rparr>]"

definition exampleParse :: "string \<Rightarrow> jsval option" where
  \<comment> \<open>\<^verbatim>\<open>JSON.parse\<close> on the bodies of the examples; it throws on every other text\<close>
  \<open>exampleParse s =
     (if s = ''[{"load":100,"temperature":"hot"},{"load":-1}]'' then
        Some (JArray [JObject [(''load'', JNumber 100), (''temperature'', JString ''hot'')],
                      JObject [(''load'', JNumber (- 1))]])
      else if s = ''[100,-1]'' then Some (JArray [JNumber 100, JNumber (- 1)])
      else if s = ''{"load":100}'' then Some (JObject [(''load'', JNumber 100)])
      else None)\<close>

definition serverExtended :: "string \<Rightarrow> string option" where
  \<comment> \<open>a server with both endpoints\<close>
  \<open>serverExtended url =
     (if url = extendedUrl then Some ''[{"load":100,"temperature":"hot"},{"load":-1}]''
      else if url = legacyUrl then Some ''[100,-1]''
      else None)\<close>

definition serverEmptyExtended :: "string \<Rightarrow> string option" where
  \<comment> \<open>the extended endpoint answers with an empty body\<close>
  "serverEmptyExtended url =
     (if url = extendedUrl then Some []
      else if url = legacyUrl then Some ''[100,-1]''
      else None)"

definition serverOtherShape :: "string \<Rightarrow> string option" where
  \<comment> \<open>the extended endpoint answers with an object, the legacy endpoint with an empty
      body\<close>
  \<open>serverOtherShape url =
     (if url = extendedUrl then Some ''{"load":100}''
      else if url = legacyUrl then Some []
      else None)\<close>

definition serverNotFound :: "string \<Rightarrow> string option" where
  \<comment> \<open>a server without the extended endpoint: its answer there is a page, not JSON\<close>
  "serverNotFound url =
     (if url = extendedUrl then Some ''<pre>Cannot GET /load/storage-extended</pre>''
      else if url = legacyUrl then Some ''[100,-1]''
      else None)"

section \<open>Properties of the temperature parser\<close>

lemma takeWhile_notSpace_id:
  "\<forall>x\<in>set s. \<not> isSpace x \<Longrightarrow> takeWhile (\<lambda>c. \<not> isSpace c) s = s"
  by (simp add: takeWhile_eq_all_conv)

lemma splitWs_first: "\<exists>rest. splitWs s = takeWhile (\<lambda>c. \<not> isSpace c) s # rest"
  by (subst splitWs.simps) (auto split: list.splits simp: takeWhile_notSpace_id)

lemma trim_decomp:
  "\<exists>ws. dropWhile isSpace s = trim s @ ws \<and> (\<forall>c\<in>set ws. isSpace c)"
proof -
  let ?r = "dropWhile isSpace s"
  have "rev ?r = takeWhile isSpace (rev ?r) @ dropWhile isSpace (rev ?r)" by simp
  then have "?r = rev (dropWhile isSpace (rev ?r)) @ rev (takeWhile isSpace (rev ?r))"
    by (metis rev_append rev_rev_ident)
  moreover have "\<forall>c\<in>set (rev (takeWhile isSpace (rev ?r))). isSpace c"
    by (auto dest: set_takeWhileD)
  ultimately show ?thesis unfolding trim_def by blast
qed

lemma takeWhile_trail:
  assumes "\<forall>c\<in>set ws. isSpace c"
  shows "takeWhile (\<lambda>c. \<not> isSpace c) (xs @ ws) = takeWhile (\<lambda>c. \<not> isSpace c) xs"
proof (cases "\<forall>c\<in>set xs. \<not> isSpace c")
  case True
  have "takeWhile (\<lambda>c. \<not> isSpace c) ws = []"
    using assms by (cases ws) auto
  then show ?thesis using True by (simp add: takeWhile_append2 takeWhile_notSpace_id)
next
  case False
  then show ?thesis by (auto simp: takeWhile_append1)
qed

text \<open>The first field of a line is what stands between its leading whitespace and the
  next whitespace.\<close>

lemma firstField_eq:
  "firstField line = takeWhile (\<lambda>c. \<not> isSpace c) (dropWhile isSpace line)"
proof -
  obtain ws where d: "dropWhile isSpace line = trim line @ ws" and w: "\<forall>c\<in>set ws. isSpace c"
    using trim_decomp by blast
  have "firstField line = takeWhile (\<lambda>c. \<not> isSpace c) (trim line)"
    using splitWs_first [of "trim line"] unfolding firstField_def by auto
  also have "\<dots> = takeWhile (\<lambda>c. \<not> isSpace c) (trim line @ ws)"
    using takeWhile_trail [OF w] by simp
  finally show ?thesis using d by simp
qed

lemma matches194_fields:
  "matches194 line \<longleftrightarrow>
     takeWhile (\<lambda>c. \<not> isSpace c) (dropWhile isSpace line) = ''194'' \<and>
     dropWhile (\<lambda>c. \<not> isSpace c) (dropWhile isSpace line) \<noteq> []"
  (is "?L \<longleftrightarrow> ?T \<and> ?D")
proof
  let ?r = "dropWhile isSpace line"
  assume ?L
  then obtain t where r: "?r = ''194'' @ t" and t: "case t of [] \<Rightarrow> False | c # _ \<Rightarrow> isSpace c"
    unfolding matches194_def Let_def prefix_def by auto
  from t obtain c rest where t': "t = c # rest" and c: "isSpace c"
    by (cases t) auto
  have n: "\<not> isSpace CHR ''1''" "\<not> isSpace CHR ''9''" "\<not> isSpace CHR ''4''"
    by (simp_all add: isSpace_def)
  show "?T \<and> ?D"
    unfolding r t' using c n by simp
next
  let ?r = "dropWhile isSpace line"
  assume a: "?T \<and> ?D"
  then obtain x xs where d: "dropWhile (\<lambda>c. \<not> isSpace c) ?r = x # xs"
    by (cases "dropWhile (\<lambda>c. \<not> isSpace c) ?r") auto
  have x: "isSpace x"
    using d hd_dropWhile [of "\<lambda>c. \<not> isSpace c" ?r] by auto
  have "?r = takeWhile (\<lambda>c. \<not> isSpace c) ?r @ dropWhile (\<lambda>c. \<not> isSpace c) ?r"
    by simp
  then have "?r = ''194'' @ x # xs"
    using a d by simp
  then show ?L
    unfolding matches194_def Let_def using x by (simp add: prefix_def)
qed

lemma mentions_needs_T:
  assumes "mentionsTemperature line"
  shows "CHR ''T'' \<in> set line"
proof -
  from assms have "set ''Temperature_Celsius'' \<subseteq> set line \<or> set ''Temperature_Internal'' \<subseteq> set line"
    unfolding mentionsTemperature_def by (blast dest: set_mono_sublist)
  then show ?thesis by auto
qed

text \<open>The two tests of the loop select the lines whose first field is \<open>194\<close> and that
  mention a temperature attribute: a line that is \<open>194\<close> alone mentions none.\<close>

lemma candidate_iff: "matches194 line \<and> mentionsTemperature line \<longleftrightarrow> isCandidate line"
proof -
  let ?r = "dropWhile isSpace line"
  have "dropWhile (\<lambda>c. \<not> isSpace c) ?r \<noteq> []"
    if f: "takeWhile (\<lambda>c. \<not> isSpace c) ?r = ''194''" and m: "mentionsTemperature line"
  proof
    assume e: "dropWhile (\<lambda>c. \<not> isSpace c) ?r = []"
    have "?r = takeWhile (\<lambda>c. \<not> isSpace c) ?r @ dropWhile (\<lambda>c. \<not> isSpace c) ?r"
      by simp
    then have r: "?r = ''194''" using f e by simp
    have "line = takeWhile isSpace line @ ?r" by simp
    then have "set line = set (takeWhile isSpace line) \<union> set ''194''"
      using r by (metis set_append)
    moreover have "CHR ''T'' \<notin> set (takeWhile isSpace line)"
      by (auto dest!: set_takeWhileD simp: isSpace_def)
    ultimately show False using mentions_needs_T [OF m] by simp
  qed
  then show ?thesis
    unfolding isCandidate_def firstField_eq matches194_fields by blast
qed

lemma parseInt_Nil: "parseInt [] = None"
  by (simp add: parseInt_def)

lemma scanLines_find:
  "scanLines ls =
     (case find (\<lambda>l. isCandidate l \<and> lineTemperature l \<noteq> None) ls of
        None \<Rightarrow> None | Some l \<Rightarrow> lineTemperature l)"
proof (induction ls)
  case Nil
  show ?case by simp
next
  case (Cons l ls)
  show ?case
  proof (cases "isCandidate l \<and> lineTemperature l \<noteq> None")
    case True
    then have "matches194 l \<and> mentionsTemperature l" by (simp add: candidate_iff)
    with True show ?thesis
      by (auto simp: lineTemperature_def parseInt_Nil split: option.splits)
  next
    case False
    then have s: "scanLines (l # ls) = scanLines ls"
      by (auto simp: candidate_iff [symmetric] lineTemperature_def parseInt_Nil
               split: option.splits)
    have f: "find (\<lambda>l. isCandidate l \<and> lineTemperature l \<noteq> None) (l # ls)
           = find (\<lambda>l. isCandidate l \<and> lineTemperature l \<noteq> None) ls"
      using False by auto
    show ?thesis unfolding s f by (rule Cons.IH)
  qed
qed

text \<open>
  C7, as the code has it. \<^verbatim>\<open>parseSmartTemperature\<close> scans the lines in order. A line is a
  candidate iff its first whitespace-separated field is \<open>194\<close> and it mentions
  \<^verbatim>\<open>Temperature_Celsius\<close> or \<^verbatim>\<open>Temperature_Internal\<close>. The result is the integer parsed
  from the tenth field of the first candidate line on which that parse succeeds:
  a candidate line with fewer than ten fields, or whose tenth field does not start with
  an integer, is skipped and the scan goes on. The temperature is unknown only when no
  candidate line yields an integer.
\<close>

theorem parseSmartTemperature_first_parsable_candidate:
  "parseSmartTemperature stdout =
     (case find (\<lambda>l. isCandidate l \<and> lineTemperature l \<noteq> None)
             (splitChar (CHR 0x0A) stdout) of
        None \<Rightarrow> None
      | Some l \<Rightarrow> lineTemperature l)"
  unfolding parseSmartTemperature_def by (rule scanLines_find)

theorem parseSmartTemperature_first_parsable_candidate_witness:
  "parseSmartTemperature
     (''ID# ATTRIBUTE_NAME          FLAG     VALUE WORST THRESH TYPE      UPDATED  WHEN_FAILED RAW_VALUE''
      @ [CHR 0x0A] @
      ''194 Temperature_Celsius     0x0022   038   045   000    Old_age   Always       -       38 (Min/Max 20/45)'')
   = Some 38"
  unfolding parseSmartTemperature_first_parsable_candidate by code_simp

text \<open>
  C7, as the claim states it, fails: here the first candidate line has no integer in its
  raw-value column, and the temperature is not left unknown, the second candidate line
  gives it.
\<close>

theorem parseSmartTemperature_first_match_counterexample:
  "find isCandidate
     (splitChar (CHR 0x0A)
        (''194 Temperature_Celsius 0x0022 038 045 000 Old_age Always - n/a'' @ [CHR 0x0A] @
         ''194 Temperature_Internal 0x0022 041 045 000 Old_age Always - 41''))
     = Some ''194 Temperature_Celsius 0x0022 038 045 000 Old_age Always - n/a''
   \<and> lineTemperature ''194 Temperature_Celsius 0x0022 038 045 000 Old_age Always - n/a'' = None
   \<and> parseSmartTemperature
        (''194 Temperature_Celsius 0x0022 038 045 000 Old_age Always - n/a'' @ [CHR 0x0A] @
         ''194 Temperature_Internal 0x0022 041 045 000 Old_age Always - 41'')
     = Some 41"
  by code_simp


section \<open>Properties of the health cache\<close>

lemma getSmartData_miss:
  "\<not> cacheFresh now (smartDataCache w p) \<Longrightarrow> getSmartData ex now p w = probeSmartData ex now p w"
  by (simp add: getSmartData_def)

lemma getSmartData_hit:
  "smartDataCache w p = Some c \<Longrightarrow> now - timestamp c < SMART_CACHE_DURATION_MS \<Longrightarrow>
   getSmartData ex now p w =
     (\<lparr>temperature = temperature c, overallStatus = overallStatus c, healthy = healthy c\<rparr>, w)"
  by (simp add: getSmartData_def cacheFresh_def)

lemma probeSmartData_log:
  "execLog (snd (probeSmartData ex now p w)) = execLog w @ [''smartctl -A '' @ p, ''smartctl -H '' @ p]"
  by (simp add: probeSmartData_def Let_def split: option.splits prod.splits)

lemma probeSmartData_stores:
  "smartDataCache (snd (probeSmartData ex now p w)) p =
     Some \<lparr>temperature = temperature (fst (probeSmartData ex now p w)),
           overallStatus = overallStatus (fst (probeSmartData ex now p w)),
           healthy = healthy (fst (probeSmartData ex now p w)), timestamp = now\<rparr>"
  by (simp add: probeSmartData_def Let_def split: option.splits prod.splits)

lemma probeSmartData_fails:
  "ex (''smartctl -A '' @ p) = None \<or> ex (''smartctl -H '' @ p) = None \<Longrightarrow>
   fst (probeSmartData ex now p w) = unknownSmartData"
  by (auto simp add: probeSmartData_def Let_def unknownSmartData_def split: option.splits prod.splits)




text \<open>
  C5. Let a call of \<^verbatim>\<open>getSmartData\<close> for a device path at time \<open>t1\<close> have completed and
  stored its record: it found no record younger than 60000 ms in the cache, invoked the
  tool (both commands) and stored its result under \<open>t1\<close>. If the next call for the path,
  with no call in between, comes at \<open>t2\<close> with \<open>t2 - t1 < 60000\<close>, it invokes nothing,
  leaves the cache as it is and returns the record the first call stored; if
  \<open>t2 - t1 \<ge> 60000\<close>, it invokes the tool again.
\<close>

theorem getSmartData_ttl_after_probe:
  assumes "\<not> cacheFresh t1 (smartDataCache w0 p)"
  shows "execLog (snd (getSmartData ex1 t1 p w0))
           = execLog w0 @ [''smartctl -A '' @ p, ''smartctl -H '' @ p]
       \<and> smartDataCache (snd (getSmartData ex1 t1 p w0)) p
           = Some \<lparr>temperature = temperature (fst (getSmartData ex1 t1 p w0)),
                   overallStatus = overallStatus (fst (getSmartData ex1 t1 p w0)),
                   healthy = healthy (fst (getSmartData ex1 t1 p w0)), timestamp = t1\<rparr>
       \<and> (t2 - t1 < 60000 \<longrightarrow>
            getSmartData ex2 t2 p (snd (getSmartData ex1 t1 p w0)) = getSmartData ex1 t1 p w0)
       \<and> (60000 \<le> t2 - t1 \<longrightarrow>
            execLog (snd (getSmartData ex2 t2 p (snd (getSmartData ex1 t1 p w0))))
              = execLog (snd (getSmartData ex1 t1 p w0))
                  @ [''smartctl -A '' @ p, ''smartctl -H '' @ p])"
proof -
  let ?r = "getSmartData ex1 t1 p w0"
  let ?c = "\<lparr>temperature = temperature (fst ?r), overallStatus = overallStatus (fst ?r),
             healthy = healthy (fst ?r), timestamp = t1\<rparr>"
  have r: "?r = probeSmartData ex1 t1 p w0"
    using assms by (rule getSmartData_miss)
  have lg: "execLog (snd ?r) = execLog w0 @ [''smartctl -A '' @ p, ''smartctl -H '' @ p]"
    unfolding r by (rule probeSmartData_log)
  have st: "smartDataCache (snd ?r) p = Some ?c"
    unfolding r by (rule probeSmartData_stores)
  have hit: "getSmartData ex2 t2 p (snd ?r) = ?r" if "t2 - t1 < 60000"
  proof -
    have "getSmartData ex2 t2 p (snd ?r) =
            (\<lparr>temperature = temperature ?c, overallStatus = overallStatus ?c,
              healthy = healthy ?c\<rparr>, snd ?r)"
      using st that by (intro getSmartData_hit) (simp_all add: SMART_CACHE_DURATION_MS_def)
    also have "\<dots> = ?r"
      by (simp add: prod_eq_iff)
    finally show ?thesis .
  qed
  have miss: "execLog (snd (getSmartData ex2 t2 p (snd ?r)))
                = execLog (snd ?r) @ [''smartctl -A '' @ p, ''smartctl -H '' @ p]"
    if "60000 \<le> t2 - t1"
  proof -
    have "\<not> cacheFresh t2 (smartDataCache (snd ?r) p)"
      using st that by (simp add: cacheFresh_def SMART_CACHE_DURATION_MS_def)
    then show ?thesis
      by (simp add: getSmartData_miss probeSmartData_log)
  qed
  from lg st hit miss show ?thesis by blast
qed

text \<open>
  An instance of C5: the first call, at time 1000 on an empty cache, invokes the tool and
  stores its record; a call 59999 ms later returns that record and invokes nothing, a call
  60000 ms later invokes the tool again.
\<close>

theorem getSmartData_ttl_after_probe_witness:
  "\<not> cacheFresh 1000 (smartDataCache emptyWorld ''/dev/sda'')
   \<and> getSmartData toolFails 60999 ''/dev/sda''
        (snd (getSmartData toolAnswers 1000 ''/dev/sda'' emptyWorld))
       = getSmartData toolAnswers 1000 ''/dev/sda'' emptyWorld
   \<and> execLog (snd (getSmartData toolAnswers 61000 ''/dev/sda''
                      (snd (getSmartData toolAnswers 1000 ''/dev/sda'' emptyWorld))))
       = [''smartctl -A /dev/sda'', ''smartctl -H /dev/sda'',
          ''smartctl -A /dev/sda'', ''smartctl -H /dev/sda'']"
proof -
  have h: "\<not> cacheFresh 1000 (smartDataCache emptyWorld ''/dev/sda'')"
    by (simp add: cacheFresh_def emptyWorld_def)
  show ?thesis
    using h
      getSmartData_ttl_after_probe [OF h, of toolAnswers 60999 toolFails]
      getSmartData_ttl_after_probe [OF h, of toolAnswers 61000 toolAnswers]
    by (simp add: emptyWorld_def)
qed

text \<open>
  C6. When a call of \<^verbatim>\<open>getSmartData\<close> invokes the tool and one of the two commands
  fails, the call returns the record with all fields unknown (no error reaches the
  caller: the result is a value), and stores that record under the current time; the
  next call for the path within 60000 ms returns the same record and invokes nothing.
\<close>

theorem getSmartData_tool_failure:
  assumes "\<not> cacheFresh now (smartDataCache w p)"
    and "ex (''smartctl -A '' @ p) = None \<or> ex (''smartctl -H '' @ p) = None"
  shows "fst (getSmartData ex now p w) = unknownSmartData
       \<and> smartDataCache (snd (getSmartData ex now p w)) p
           = Some \<lparr>temperature = None, overallStatus = None, healthy = None,
                   timestamp = now\<rparr>
       \<and> (\<forall>t2 ex2. t2 - now < 60000 \<longrightarrow>
            getSmartData ex2 t2 p (snd (getSmartData ex now p w))
              = (unknownSmartData, snd (getSmartData ex now p w)))"
proof -
  let ?r = "getSmartData ex now p w"
  have r: "?r = probeSmartData ex now p w"
    using assms(1) by (rule getSmartData_miss)
  have d: "fst ?r = unknownSmartData"
    unfolding r using assms(2) by (rule probeSmartData_fails)
  have st: "smartDataCache (snd ?r) p
              = Some \<lparr>temperature = None, overallStatus = None, healthy = None,
                      timestamp = now\<rparr>"
    using probeSmartData_stores [of ex now p w] d
    unfolding r by (simp add: unknownSmartData_def)
  have "getSmartData ex2 t2 p (snd ?r) = (unknownSmartData, snd ?r)"
    if "t2 - now < 60000" for t2 ex2
    using getSmartData_hit [OF st, of t2 ex2] that
    by (simp add: SMART_CACHE_DURATION_MS_def unknownSmartData_def)
  with d st show ?thesis by blast
qed

text \<open>An instance of C6: the tool cannot read \<^verbatim>\<open>/dev/sdc\<close>.\<close>

theorem getSmartData_tool_failure_witness:
  "\<not> cacheFresh 1000 (smartDataCache emptyWorld ''/dev/sdc'')
   \<and> toolAnswers (''smartctl -A '' @ ''/dev/sdc'') = None
   \<and> fst (getSmartData toolAnswers 1000 ''/dev/sdc'' emptyWorld) = unknownSmartData
   \<and> getSmartData toolAnswers 60999 ''/dev/sdc''
        (snd (getSmartData toolAnswers 1000 ''/dev/sdc'' emptyWorld))
       = (unknownSmartData, snd (getSmartData toolAnswers 1000 ''/dev/sdc'' emptyWorld))"
proof -
  have h: "\<not> cacheFresh 1000 (smartDataCache emptyWorld ''/dev/sdc'')"
    by (simp add: cacheFresh_def emptyWorld_def)
  have a: "toolAnswers (''smartctl -A '' @ ''/dev/sdc'') = None"
    by (simp add: toolAnswers_def)
  have f: "toolAnswers (''smartctl -A '' @ ''/dev/sdc'') = None
           \<or> toolAnswers (''smartctl -H '' @ ''/dev/sdc'') = None"
    using a by (rule disjI1)
  note T = getSmartData_tool_failure
             [where ex = toolAnswers and now = 1000 and w = emptyWorld and p = "''/dev/sdc''",
              OF h f]
  from T have 1: "fst (getSmartData toolAnswers 1000 ''/dev/sdc'' emptyWorld) = unknownSmartData"
    by blast
  from T have "(60999 :: int) - 1000 < 60000 \<longrightarrow>
      getSmartData toolAnswers 60999 ''/dev/sdc''
        (snd (getSmartData toolAnswers 1000 ''/dev/sdc'' emptyWorld))
       = (unknownSmartData, snd (getSmartData toolAnswers 1000 ''/dev/sdc'' emptyWorld))"
    by blast
  then have 2: "getSmartData toolAnswers 60999 ''/dev/sdc''
        (snd (getSmartData toolAnswers 1000 ''/dev/sdc'' emptyWorld))
       = (unknownSmartData, snd (getSmartData toolAnswers 1000 ''/dev/sdc'' emptyWorld))"
    by simp
  from h a 1 2 show ?thesis by blast
qed

section \<open>Properties of the storage load mapper\<close>

lemma newSet_Nil: "newSet [] = []"
  by (simp add: newSet_def)

lemma smartCandidatesOf_Nil: "smartCandidatesOf [] = []"
  by (simp add: smartCandidatesOf_def newSet_Nil)

lemma aggregateSmartData_Nil: "aggregateSmartData [] = unknownSmartData"
  by (simp add: aggregateSmartData_def unknownSmartData_def)

lemma entryHealth_fst:
  "fst (entryHealth env ex now w0 e w) = aggregateSmartData (entrySmartData env ex now w0 e)"
proof (cases "enable_smart_temps env \<and> smartCandidatesOf (disks e) \<noteq> []")
  case True
  then have "disks e \<noteq> []" using smartCandidatesOf_Nil by auto
  with True show ?thesis
    by (simp add: entryHealth_def entrySmartData_def fetchSmartData_def Let_def)
next
  case False
  then have "entrySmartData env ex now w0 e = []"
    by (auto simp: entrySmartData_def)
  moreover have "fst (entryHealth env ex now w0 e w) = unknownSmartData"
    using False by (auto simp: entryHealth_def Let_def unknownSmartData_def)
  ultimately show ?thesis by (simp add: aggregateSmartData_Nil)
qed

lemma mapEntry_fst:
  "fst (mapEntry env ex now m w0 e w) =
     \<lparr>temperature = temperature (aggregateSmartData (entrySmartData env ex now w0 e)),
      overallStatus = overallStatus (aggregateSmartData (entrySmartData env ex now w0 e)),
      healthy = healthy (aggregateSmartData (entrySmartData env ex now w0 e)),
      load = entryLoad env m e\<rparr>"
proof -
  obtain h w' where a: "entryHealth env ex now w0 e w = (h, w')"
    by (cases "entryHealth env ex now w0 e w")
  then have "h = aggregateSmartData (entrySmartData env ex now w0 e)"
    using entryHealth_fst [of env ex now w0 e w] by simp
  with a show ?thesis by (simp add: mapEntry_def)
qed

lemma mapEntry_fst_world: "fst (mapEntry env ex now m w0 e w) = fst (mapEntry env ex now m w0 e w')"
  by (simp add: mapEntry_fst)

lemma mapEntries_fst:
  "fst (mapEntries env ex now m w0 es w) = map (\<lambda>e. fst (mapEntry env ex now m w0 e w0)) es"
proof (induction es arbitrary: w)
  case Nil
  show ?case by simp
next
  case (Cons e es)
  obtain out w1 where a: "mapEntry env ex now m w0 e w = (out, w1)" by (cases "mapEntry env ex now m w0 e w")
  obtain outs w2 where b: "mapEntries env ex now m w0 es w1 = (outs, w2)" by (cases "mapEntries env ex now m w0 es w1")
  have "out = fst (mapEntry env ex now m w0 e w0)"
    using a mapEntry_fst_world [of env ex now m w0 e w w0] by simp
  moreover have "outs = map (\<lambda>e. fst (mapEntry env ex now m w0 e w0)) es"
    using b Cons.IH [of w1] by simp
  ultimately show ?case using a b by simp
qed


text \<open>
  C1. The array \<^verbatim>\<open>getMappedLayout\<close> returns has the length of the layout, and its entry
  at each index is the one the callback computes for the layout entry at that index.
\<close>

theorem getMappedLayout_aligned:
  "length (fst (getMappedLayout env ex now m w0)) = length (layout m) \<and>
   (\<forall>i<length (layout m).
      fst (getMappedLayout env ex now m w0) ! i = fst (mapEntry env ex now m w0 (layout m ! i) w0))"
proof -
  have "fst (getMappedLayout env ex now m w0)
          = map (\<lambda>e. fst (mapEntry env ex now m w0 e w0)) (layout m)"
    unfolding getMappedLayout_def by (rule mapEntries_fst)
  then show ?thesis by simp
qed

text \<open>An instance of C1: a layout of three entries, and the output at index 1.\<close>

theorem getMappedLayout_aligned_witness:
  "1 < length (layout unmatchedMapper)
   \<and> length (fst (getMappedLayout exampleEnv toolFails 1000 unmatchedMapper emptyWorld)) = 3
   \<and> fst (getMappedLayout exampleEnv toolFails 1000 unmatchedMapper emptyWorld) ! 1
       = \<lparr>temperature = None, overallStatus = None, healthy = None, load = - 1\<rparr>"
proof -
  have l: "layout unmatchedMapper = [virtualEntry, mirrorEntry, plainEntry]"
    by (simp add: unmatchedMapper_def newDynamicStorageMapper_def)
  have e: "fst (mapEntry exampleEnv toolFails 1000 unmatchedMapper emptyWorld mirrorEntry emptyWorld)
             = \<lparr>temperature = None, overallStatus = None, healthy = None, load = - 1\<rparr>"
    by code_simp
  show ?thesis
    using getMappedLayout_aligned [of exampleEnv toolFails 1000 unmatchedMapper emptyWorld] e
    by (simp add: l)
qed

lemma sumUp_sum_list: "sumUp xs key = sum_list (map key xs)"
proof -
  have "foldl (\<lambda>acc cur. acc + key cur) a xs = a + sum_list (map key xs)" for a
    by (induction xs arbitrary: a) simp_all
  then show ?thesis by (simp add: sumUp_def)
qed

lemma mapEntry_load: "load (fst (mapEntry env ex now m w0 e w)) = entryLoad env m e"
  by (simp add: mapEntry_fst)

lemma entryLoad_nonvirtual:
  "\<not> virtual e \<Longrightarrow>
   entryLoad env m e =
     (if matchedSizes env m e = [] then - 1
      else if \<exists>b\<in>set (deviceBlocksOf m e). fsType b = ''LVM2_member''
           then sum_list (map used (matchedSizes env m e))
           else sum_list (map used (matchedSizes env m e))
                + max 0 (StorageLayoutEntry.size e - sum_list (map Size.size (matchedSizes env m e))))"
  by (simp add: entryLoad_def getSizeForBlocks_def matchedSizes_def Let_def sumUp_sum_list
                list_ex_iff)


text \<open>
  C2. For a non-virtual layout entry that at least one valid filesystem-size record
  matches: if a backing block device has the filesystem type \<^verbatim>\<open>LVM2_member\<close>, the load
  is the sum of \<^verbatim>\<open>used\<close> over the matched records; otherwise it is that sum plus
  \<open>max 0 (entry size - sum of size over the matched records)\<close>.
\<close>

theorem load_of_matched_entry:
  assumes "\<not> virtual e" and "matchedSizes env m e \<noteq> []"
  shows "load (fst (mapEntry env ex now m w0 e w)) =
           (if \<exists>b\<in>set (deviceBlocksOf m e). fsType b = ''LVM2_member''
            then sum_list (map used (matchedSizes env m e))
            else sum_list (map used (matchedSizes env m e))
                 + max 0 (StorageLayoutEntry.size e
                          - sum_list (map Size.size (matchedSizes env m e))))"
  using assms by (simp add: mapEntry_load entryLoad_nonvirtual)

text \<open>
  The instance of C2 that the specification names: an entry of size 1000 whose matched
  records sum to \<open>used = 300\<close> and \<open>size = 400\<close> has the load 900, and the load 300 when
  its block device is a member of an LVM volume group.
\<close>

theorem load_of_matched_entry_witness:
  "\<not> virtual plainEntry
   \<and> matchedSizes exampleEnv (exampleMapper ''ext4'') plainEntry \<noteq> []
   \<and> matchedSizes exampleEnv (exampleMapper ''LVM2_member'') plainEntry \<noteq> []
   \<and> load (fst (mapEntry exampleEnv toolFails 1000 (exampleMapper ''ext4'') emptyWorld
                  plainEntry emptyWorld)) = 900
   \<and> load (fst (mapEntry exampleEnv toolFails 1000 (exampleMapper ''LVM2_member'') emptyWorld
                  plainEntry emptyWorld)) = 300"
proof -
  have v: "\<not> virtual plainEntry"
    by (simp add: plainEntry_def)
  have s: "StorageLayoutEntry.size plainEntry = 1000"
    by (simp add: plainEntry_def)
  have m: "matchedSizes exampleEnv (exampleMapper fsT) plainEntry = take 2 exampleSizes"
    if "fsT = ''ext4'' \<or> fsT = ''LVM2_member''" for fsT
    using that by (elim disjE; hypsubst) code_simp+
  have b: "deviceBlocksOf (exampleMapper fsT) plainEntry = [exampleBlock fsT]" for fsT
    by (simp add: deviceBlocksOf_def getBlocksForDisks_def getBlocksForRaid_def
          getBlocksForXfs_def exampleMapper_def newDynamicStorageMapper_def plainEntry_def
          exampleBlock_def)
  have n: "matchedSizes exampleEnv (exampleMapper fsT) plainEntry \<noteq> []"
    if "fsT = ''ext4'' \<or> fsT = ''LVM2_member''" for fsT
    using m [OF that] by (simp add: exampleSizes_def)
  have 1: "load (fst (mapEntry exampleEnv toolFails 1000 (exampleMapper ''ext4'') emptyWorld
                  plainEntry emptyWorld)) = 900"
    using load_of_matched_entry [OF v n, of "''ext4''" toolFails 1000 emptyWorld emptyWorld]
    by (simp add: m b s exampleSizes_def exampleBlock_def)
  have 2: "load (fst (mapEntry exampleEnv toolFails 1000 (exampleMapper ''LVM2_member'') emptyWorld
                  plainEntry emptyWorld)) = 300"
    using load_of_matched_entry [OF v n, of "''LVM2_member''" toolFails 1000 emptyWorld emptyWorld]
    by (simp add: m b s exampleSizes_def exampleBlock_def)
  from v n 1 2 show ?thesis by simp
qed

lemma matchedSizes_no_blocks: "deviceBlocksOf m e = [] \<Longrightarrow> matchedSizes env m e = []"
  by (simp add: matchedSizes_def sizeMatches_def)

lemma deviceBlocksOf_Nil_iff:
  "deviceBlocksOf m e = [] \<longleftrightarrow>
     getBlocksForDisks m (disks e) = [] \<and> getBlocksForRaid m (raidLabel e) (raidName e) = []"
  by (auto simp: deviceBlocksOf_def Let_def getBlocksForXfs_def)

text \<open>
  C3, as the code has it. For a non-virtual layout entry that no valid filesystem-size
  record matches, the load is \<open>-1\<close>; it is the field of an ordinary result, the callback
  has no failing branch. This includes every non-virtual entry without any backing block
  device: its disks match no block device, and its RAID label and name match none either.
\<close>

theorem load_of_unmatched_entry:
  assumes "\<not> virtual e"
    and "matchedSizes env m e = [] \<or>
         (getBlocksForDisks m (disks e) = [] \<and>
          getBlocksForRaid m (raidLabel e) (raidName e) = [])"
  shows "load (fst (mapEntry env ex now m w0 e w)) = - 1"
proof -
  have "matchedSizes env m e = []"
    using assms(2) matchedSizes_no_blocks [of m e env] deviceBlocksOf_Nil_iff [of m e]
    by blast
  with assms(1) show ?thesis
    by (simp add: mapEntry_load entryLoad_nonvirtual)
qed

text \<open>
  Instances of C3 as amended: an entry whose partition is among the block devices while
  no filesystem-size record matches it; an entry without any backing block device.
\<close>

theorem load_of_unmatched_entry_witness:
  "\<not> virtual plainEntry
   \<and> deviceBlocksOf unmountedMapper plainEntry = [exampleBlock ''ext4'']
   \<and> matchedSizes exampleEnv unmountedMapper plainEntry = []
   \<and> load (fst (mapEntry exampleEnv toolFails 1000 unmountedMapper emptyWorld
                  plainEntry emptyWorld)) = - 1
   \<and> \<not> virtual mirrorEntry
   \<and> getBlocksForDisks unmatchedMapper (disks mirrorEntry) = []
   \<and> getBlocksForRaid unmatchedMapper (raidLabel mirrorEntry) (raidName mirrorEntry) = []
   \<and> load (fst (mapEntry exampleEnv toolFails 1000 unmatchedMapper emptyWorld
                  mirrorEntry emptyWorld)) = - 1"
proof -
  have v1: "\<not> virtual plainEntry"
    by (simp add: plainEntry_def)
  have b1: "deviceBlocksOf unmountedMapper plainEntry = [exampleBlock ''ext4'']"
    by code_simp
  have m1: "matchedSizes exampleEnv unmountedMapper plainEntry = []"
    by code_simp
  have l1: "load (fst (mapEntry exampleEnv toolFails 1000 unmountedMapper emptyWorld
                  plainEntry emptyWorld)) = - 1"
    using v1 disjI1 [OF m1] by (rule load_of_unmatched_entry)
  have v2: "\<not> virtual mirrorEntry"
    by (simp add: mirrorEntry_def)
  have d2: "getBlocksForDisks unmatchedMapper (disks mirrorEntry) = []"
    by code_simp
  have r2: "getBlocksForRaid unmatchedMapper (raidLabel mirrorEntry) (raidName mirrorEntry) = []"
    by code_simp
  have l2: "load (fst (mapEntry exampleEnv toolFails 1000 unmatchedMapper emptyWorld
                  mirrorEntry emptyWorld)) = - 1"
    using v2 disjI2 [OF conjI [OF d2 r2]] by (rule load_of_unmatched_entry)
  from v1 b1 m1 l1 v2 d2 r2 l2 show ?thesis by blast
qed

text \<open>
  C3, as the claim states it, fails. The disk of the entry matches no block device, yet
  the entry has a backing block device through its RAID label; that device is mounted,
  its filesystem-size record matches, and the load is \<open>50 + max 0 (2000 - 100)\<close>.
\<close>

theorem load_of_unmatched_disks_counterexample:
  "\<not> virtual raidEntry
   \<and> getBlocksForDisks raidMapper (disks raidEntry) = []
   \<and> load (fst (mapEntry exampleEnv toolFails 1000 raidMapper emptyWorld
                  raidEntry emptyWorld)) = 1950"
  by code_simp

lemma availableTemps_known:
  "map the (filter (\<lambda>t. t \<noteq> None) (map temperature sd)) = knownTemperatures sd"
  by (induction sd) (auto simp: knownTemperatures_def)

lemma foldl_max_Max: "foldl max (t::int) ts = Max (set (t # ts))"
proof -
  have "foldl max t ts = fold max ts t"
    by (simp add: foldl_conv_fold max.commute)
  then show ?thesis by (simp only: Max.set_eq_fold)
qed

lemma aggregate_temperature:
  "temperature (aggregateSmartData sd) =
     (if knownTemperatures sd = [] then None else Some (Max (set (knownTemperatures sd))))"
proof -
  have "temperature (aggregateSmartData sd) =
          (case knownTemperatures sd of [] \<Rightarrow> None | t # ts \<Rightarrow> Some (foldl max t ts))"
    by (simp only: aggregateSmartData_def availableTemps_known Let_def) simp
  then show ?thesis
    by (cases "knownTemperatures sd") (simp_all add: foldl_max_Max)
qed


text \<open>
  C4. The health fields of an output entry aggregate the records fetched for its SMART
  candidates: \<^verbatim>\<open>FAILED\<close> and unhealthy if one record is \<^verbatim>\<open>FAILED\<close>; else \<^verbatim>\<open>PASSED\<close> and
  healthy if one record is \<^verbatim>\<open>PASSED\<close>; else both unset. The temperature is the maximum
  of the known temperatures of the records, unset when none is known.
\<close>

theorem aggregated_health:
  "((\<exists>d\<in>set (entrySmartData env ex now w0 e). overallStatus d = Some ''FAILED'') \<longrightarrow>
      overallStatus (fst (mapEntry env ex now m w0 e w)) = Some ''FAILED'' \<and>
      healthy (fst (mapEntry env ex now m w0 e w)) = Some False)
   \<and> (\<not> (\<exists>d\<in>set (entrySmartData env ex now w0 e). overallStatus d = Some ''FAILED'') \<and>
      (\<exists>d\<in>set (entrySmartData env ex now w0 e). overallStatus d = Some ''PASSED'') \<longrightarrow>
      overallStatus (fst (mapEntry env ex now m w0 e w)) = Some ''PASSED'' \<and>
      healthy (fst (mapEntry env ex now m w0 e w)) = Some True)
   \<and> (\<not> (\<exists>d\<in>set (entrySmartData env ex now w0 e). overallStatus d = Some ''FAILED'') \<and>
      \<not> (\<exists>d\<in>set (entrySmartData env ex now w0 e). overallStatus d = Some ''PASSED'') \<longrightarrow>
      overallStatus (fst (mapEntry env ex now m w0 e w)) = None \<and>
      healthy (fst (mapEntry env ex now m w0 e w)) = None)
   \<and> temperature (fst (mapEntry env ex now m w0 e w)) =
       (if knownTemperatures (entrySmartData env ex now w0 e) = [] then None
        else Some (Max (set (knownTemperatures (entrySmartData env ex now w0 e)))))"
proof -
  let ?sd = "entrySmartData env ex now w0 e"
  have st: "overallStatus (aggregateSmartData ?sd) =
              (if \<exists>d\<in>set ?sd. overallStatus d = Some ''FAILED'' then Some ''FAILED''
               else if \<exists>d\<in>set ?sd. overallStatus d = Some ''PASSED'' then Some ''PASSED''
               else None)"
    by (simp add: aggregateSmartData_def Let_def list_ex_iff)
  have he: "healthy (aggregateSmartData ?sd) =
              (if \<exists>d\<in>set ?sd. overallStatus d = Some ''FAILED'' then Some False
               else if \<exists>d\<in>set ?sd. overallStatus d = Some ''PASSED'' then Some True
               else None)"
    by (simp add: aggregateSmartData_def Let_def list_ex_iff)
  show ?thesis
    unfolding mapEntry_fst using st he aggregate_temperature [of ?sd] by simp
qed

text \<open>
  Instances of C4: two disks that report \<^verbatim>\<open>PASSED\<close> at 40 degrees and \<^verbatim>\<open>FAILED\<close> at 55
  degrees; one disk that reports \<^verbatim>\<open>PASSED\<close>; one disk that cannot be read.
\<close>

theorem aggregated_health_witness:
  "(\<exists>d\<in>set (entrySmartData exampleEnv toolAnswers 1000 emptyWorld mirrorEntry).
      overallStatus d = Some ''FAILED'')
   \<and> fst (mapEntry exampleEnv toolAnswers 1000 unmatchedMapper emptyWorld mirrorEntry emptyWorld)
       = \<lparr>temperature = Some 55, overallStatus = Some ''FAILED'', healthy = Some False,
          load = - 1\<rparr>
   \<and> \<not> (\<exists>d\<in>set (entrySmartData exampleEnv toolAnswers 1000 emptyWorld plainEntry).
          overallStatus d = Some ''FAILED'')
   \<and> (\<exists>d\<in>set (entrySmartData exampleEnv toolAnswers 1000 emptyWorld plainEntry).
          overallStatus d = Some ''PASSED'')
   \<and> fst (mapEntry exampleEnv toolAnswers 1000 unmatchedMapper emptyWorld plainEntry emptyWorld)
       = \<lparr>temperature = Some 40, overallStatus = Some ''PASSED'', healthy = Some True,
          load = - 1\<rparr>
   \<and> \<not> (\<exists>d\<in>set (entrySmartData exampleEnv toolFails 1000 emptyWorld plainEntry).
          overallStatus d = Some ''FAILED'' \<or> overallStatus d = Some ''PASSED'')
   \<and> fst (mapEntry exampleEnv toolFails 1000 unmatchedMapper emptyWorld plainEntry emptyWorld)
       = \<lparr>temperature = None, overallStatus = None, healthy = None, load = - 1\<rparr>"
proof -
  have a: "fst (getSmartData toolAnswers 1000 ''/dev/sda'' emptyWorld)
             = \<lparr>temperature = Some 40, overallStatus = Some ''PASSED'', healthy = Some True\<rparr>"
    by code_simp
  have b: "fst (getSmartData toolAnswers 1000 ''/dev/sdb'' emptyWorld)
             = \<lparr>temperature = Some 55, overallStatus = Some ''FAILED'', healthy = Some False\<rparr>"
    by code_simp
  have c: "fst (getSmartData toolFails 1000 ''/dev/sda'' emptyWorld)
             = \<lparr>temperature = None, overallStatus = None, healthy = None\<rparr>"
    by code_simp
  have cm: "smartCandidatesOf (disks mirrorEntry) = [''/dev/sda'', ''/dev/sdb'']"
    by code_simp
  have cp: "smartCandidatesOf (disks plainEntry) = [''/dev/sda'']"
    by code_simp
  have en: "enable_smart_temps exampleEnv"
    by (simp add: exampleEnv_def)
  have lm: "entryLoad exampleEnv unmatchedMapper mirrorEntry = - 1"
    by code_simp
  have lp: "entryLoad exampleEnv unmatchedMapper plainEntry = - 1"
    by code_simp
  have sm: "entrySmartData exampleEnv toolAnswers 1000 emptyWorld mirrorEntry =
              [\<lparr>temperature = Some 40, overallStatus = Some ''PASSED'', healthy = Some True\<rparr>,
               \<lparr>temperature = Some 55, overallStatus = Some ''FAILED'', healthy = Some False\<rparr>]"
    by (simp add: entrySmartData_def en cm a b)
  have sp: "entrySmartData exampleEnv toolAnswers 1000 emptyWorld plainEntry =
              [\<lparr>temperature = Some 40, overallStatus = Some ''PASSED'', healthy = Some True\<rparr>]"
    by (simp add: entrySmartData_def en cp a)
  have sf: "entrySmartData exampleEnv toolFails 1000 emptyWorld plainEntry =
              [\<lparr>temperature = None, overallStatus = None, healthy = None\<rparr>]"
    by (simp add: entrySmartData_def en cp c)
  have 1: "fst (mapEntry exampleEnv toolAnswers 1000 unmatchedMapper emptyWorld mirrorEntry emptyWorld)
       = \<lparr>temperature = Some 55, overallStatus = Some ''FAILED'', healthy = Some False,
          load = - 1\<rparr>"
    using aggregated_health [of exampleEnv toolAnswers 1000 emptyWorld mirrorEntry
            unmatchedMapper emptyWorld]
      mapEntry_load [of exampleEnv toolAnswers 1000 unmatchedMapper emptyWorld mirrorEntry emptyWorld]
    by (simp add: sm lm knownTemperatures_def)
  have 2: "fst (mapEntry exampleEnv toolAnswers 1000 unmatchedMapper emptyWorld plainEntry emptyWorld)
       = \<lparr>temperature = Some 40, overallStatus = Some ''PASSED'', healthy = Some True,
          load = - 1\<rparr>"
    using aggregated_health [of exampleEnv toolAnswers 1000 emptyWorld plainEntry
            unmatchedMapper emptyWorld]
      mapEntry_load [of exampleEnv toolAnswers 1000 unmatchedMapper emptyWorld plainEntry emptyWorld]
    by (simp add: sp lp knownTemperatures_def)
  have 3: "fst (mapEntry exampleEnv toolFails 1000 unmatchedMapper emptyWorld plainEntry emptyWorld)
       = \<lparr>temperature = None, overallStatus = None, healthy = None, load = - 1\<rparr>"
    using aggregated_health [of exampleEnv toolFails 1000 emptyWorld plainEntry
            unmatchedMapper emptyWorld]
      mapEntry_load [of exampleEnv toolFails 1000 unmatchedMapper emptyWorld plainEntry emptyWorld]
    by (simp add: sf lp knownTemperatures_def)
  show ?thesis
    unfolding 1 2 3 by (simp add: sm sp sf)
qed


text \<open>
  C10. For a virtual layout entry the load is looked up in the sizes the mapper was
  constructed with, not in the filtered \<^verbatim>\<open>validSizes\<close>: the first record whose \<^verbatim>\<open>fs\<close> is
  the device of the first disk of the entry gives the load, its \<^verbatim>\<open>used\<close>, whatever its
  type and mount are; the load is 0 when no record matches or the entry has no disk.
\<close>

theorem virtual_load_raw_sizes:
  assumes "virtual e"
  shows "(\<forall>d ds i. disks e = d # ds \<and> i < length szs \<and> fs (szs ! i) = Disk.device d \<and>
                   (\<forall>j<i. fs (szs ! j) \<noteq> Disk.device d) \<longrightarrow>
            load (fst (mapEntry env ex now (newDynamicStorageMapper env win32 lay blks szs) w0 e w))
              = used (szs ! i))
       \<and> ((disks e = [] \<or> (\<forall>s\<in>set szs. fs s \<noteq> Disk.device (hd (disks e)))) \<longrightarrow>
            load (fst (mapEntry env ex now (newDynamicStorageMapper env win32 lay blks szs) w0 e w))
              = 0)"
proof -
  let ?m = "newDynamicStorageMapper env win32 lay blks szs"
  let ?P = "\<lambda>s. case disks e of [] \<Rightarrow> False | d # _ \<Rightarrow> fs s = Disk.device d"
  have l: "load (fst (mapEntry env ex now ?m w0 e w)) =
             (case find ?P szs of None \<Rightarrow> 0 | Some s \<Rightarrow> used s)"
    using assms by (simp add: mapEntry_load entryLoad_def newDynamicStorageMapper_def)
  have a: "load (fst (mapEntry env ex now ?m w0 e w)) = used (szs ! i)"
    if "disks e = d # ds" "i < length szs" "fs (szs ! i) = Disk.device d"
       "\<forall>j<i. fs (szs ! j) \<noteq> Disk.device d" for d ds i
  proof -
    have "find ?P szs = Some (szs ! i)"
      using that by (auto simp: find_Some_iff)
    then show ?thesis using l by simp
  qed
  have b: "load (fst (mapEntry env ex now ?m w0 e w)) = 0"
    if "disks e = [] \<or> (\<forall>s\<in>set szs. fs s \<noteq> Disk.device (hd (disks e)))"
  proof -
    have "find ?P szs = None"
      using that by (auto simp: find_None_iff split: list.splits)
    then show ?thesis using l by simp
  qed
  from a b show ?thesis by blast
qed

text \<open>
  An instance of C10: the record that gives the load has a filtered type and a mount
  outside the host root, and is not among \<^verbatim>\<open>validSizes\<close>.
\<close>

theorem virtual_load_raw_sizes_witness:
  "virtual virtualEntry
   \<and> exampleSizes ! 2 \<notin> set (validSizes (exampleMapper ''ext4''))
   \<and> load (fst (mapEntry exampleEnv toolFails 1000 (exampleMapper ''ext4'') emptyWorld
                  virtualEntry emptyWorld)) = 42"
proof -
  have v: "virtual virtualEntry"
    by (simp add: virtualEntry_def)
  have d: "disks virtualEntry = [\<lparr>Disk.device = ''overlay''\<rparr>]"
    by (simp add: virtualEntry_def)
  have n: "exampleSizes ! 2 \<notin> set (validSizes (exampleMapper ''ext4''))"
    by (simp add: exampleMapper_def newDynamicStorageMapper_def getValidSizes_def
          exampleSizes_def exampleEnv_def)
  have i: "2 < length exampleSizes" "fs (exampleSizes ! 2) = ''overlay''"
    "used (exampleSizes ! 2) = 42"
    by (simp_all add: exampleSizes_def)
  have j: "\<forall>j<2. fs (exampleSizes ! j) \<noteq> ''overlay''"
    by (auto dest!: less_2_cases simp: exampleSizes_def)
  note T = virtual_load_raw_sizes [OF v, where szs = exampleSizes and env = exampleEnv
             and ex = toolFails and now = 1000 and ?win32.0 = False
             and lay = "[plainEntry, virtualEntry]" and blks = "[exampleBlock ''ext4'']"
             and ?w0.0 = emptyWorld and w = emptyWorld]
  from T have "disks virtualEntry = \<lparr>Disk.device = ''overlay''\<rparr> # [] \<and> 2 < length exampleSizes \<and>
        fs (exampleSizes ! 2) = Disk.device \<lparr>Disk.device = ''overlay''\<rparr> \<and>
        (\<forall>j<2. fs (exampleSizes ! j) \<noteq> Disk.device \<lparr>Disk.device = ''overlay''\<rparr>) \<longrightarrow>
      load (fst (mapEntry exampleEnv toolFails 1000
                (newDynamicStorageMapper exampleEnv False [plainEntry, virtualEntry]
                   [exampleBlock ''ext4''] exampleSizes) emptyWorld virtualEntry emptyWorld))
          = used (exampleSizes ! 2)"
    by blast
  then have "load (fst (mapEntry exampleEnv toolFails 1000
                (newDynamicStorageMapper exampleEnv False [plainEntry, virtualEntry]
                   [exampleBlock ''ext4''] exampleSizes) emptyWorld virtualEntry emptyWorld))
          = 42"
    using d i j by simp
  then show ?thesis
    using v n by (simp add: exampleMapper_def)
qed

section \<open>Properties of the protocol adapter\<close>

lemma mapE_total:
  "\<forall>x\<in>set xs. f x = Inr (g x) \<Longrightarrow> mapE f xs = Inr (map g xs)"
  by (induction xs) simp_all

text \<open>
  C8. Projecting the array of the mapper to legacy form gives the load of each entry at
  the same index, so \<open>-1\<close> stays \<open>-1\<close>. Wrapping a legacy array gives at each index the
  object whose only property is \<^verbatim>\<open>load\<close>, the element at that index. Wrapping a numeric
  array and projecting the result gives the numeric array back.
\<close>

theorem legacy_projection_and_wrap:
  "toLegacyStorageLoad (map entryValue es) = Inr (map (\<lambda>e. JNumber (load e)) es)
   \<and> length (wrapLegacy xs) = length xs
   \<and> (\<forall>i<length xs. wrapLegacy xs ! i = JObject [(''load'', xs ! i)])
   \<and> toLegacyStorageLoad (wrapLegacy (map JNumber ns)) = Inr (map JNumber ns)"
proof -
  have 1: "toLegacyStorageLoad (map entryValue es) = Inr (map (\<lambda>e. JNumber (load e)) es)"
  proof -
    have "mapE (\<lambda>item. if isNumber item then Inr item else loadOf item) (map entryValue es)
            = Inr (map (\<lambda>v. case loadOf v of Inr l \<Rightarrow> l | Inl _ \<Rightarrow> JUndefined) (map entryValue es))"
      by (rule mapE_total) (auto simp: entryValue_def)
    also have "map (\<lambda>v. case loadOf v of Inr l \<Rightarrow> l | Inl _ \<Rightarrow> JUndefined) (map entryValue es)
            = map (\<lambda>e. JNumber (load e)) es"
      by (simp add: entryValue_def)
    finally show ?thesis by (simp add: toLegacyStorageLoad_def)
  qed
  have 2: "toLegacyStorageLoad (wrapLegacy (map JNumber ns)) = Inr (map JNumber ns)"
  proof -
    have "mapE (\<lambda>item. if isNumber item then Inr item else loadOf item) (wrapLegacy (map JNumber ns))
            = Inr (map (\<lambda>v. case loadOf v of Inr l \<Rightarrow> l | Inl _ \<Rightarrow> JUndefined) (wrapLegacy (map JNumber ns)))"
      by (rule mapE_total) (auto simp: wrapLegacy_def)
    also have "map (\<lambda>v. case loadOf v of Inr l \<Rightarrow> l | Inl _ \<Rightarrow> JUndefined) (wrapLegacy (map JNumber ns))
            = map JNumber ns"
      by (simp add: wrapLegacy_def comp_def)
    finally show ?thesis by (simp add: toLegacyStorageLoad_def)
  qed
  show ?thesis using 1 2 by (simp add: wrapLegacy_def)
qed

text \<open>The instance of C8 that the specification names: the arrays \<^verbatim>\<open>[100, -1]\<close>.\<close>

theorem legacy_projection_and_wrap_witness:
  "toLegacyStorageLoad
     [entryValue \<lparr>temperature = Some 40, overallStatus = Some ''PASSED'', healthy = Some True,
                  load = 100\<rparr>,
      entryValue \<lparr>temperature = None, overallStatus = None, healthy = None, load = - 1\<rparr>]
     = Inr [JNumber 100, JNumber (- 1)]
   \<and> wrapLegacy [JNumber 100, JNumber (- 1)]
       = [JObject [(''load'', JNumber 100)], JObject [(''load'', JNumber (- 1))]]
   \<and> toLegacyStorageLoad (wrapLegacy [JNumber 100, JNumber (- 1)])
       = Inr [JNumber 100, JNumber (- 1)]"
proof -
  note T = legacy_projection_and_wrap
    [of "[\<lparr>temperature = Some 40, overallStatus = Some ''PASSED'', healthy = Some True,
           load = 100\<rparr>,
          \<lparr>temperature = None, overallStatus = None, healthy = None, load = - 1\<rparr>]"
        "[JNumber 100, JNumber (- 1)]" "[100, - 1]"]
  from T have l: "length (wrapLegacy [JNumber 100, JNumber (- 1)]) = 2" by simp
  from T have n: "\<forall>i<2. wrapLegacy [JNumber 100, JNumber (- 1)] ! i
                     = JObject [(''load'', [JNumber 100, JNumber (- 1)] ! i)]"
    by simp
  have w: "wrapLegacy [JNumber 100, JNumber (- 1)]
       = [JObject [(''load'', JNumber 100)], JObject [(''load'', JNumber (- 1))]]"
    using l n by (auto simp: list_eq_iff_nth_eq less_Suc_eq numeral_2_eq_2)
  show ?thesis using T w by simp
qed

lemma getCurrentStorageLoadAsync_extended:
  assumes "fetchText extendedUrl = Some body" and "body \<noteq> []"
    and "JSON_parse body = Some v" and "hasExtendedShape v"
  shows "\<exists>items. v = JArray items \<and>
           getCurrentStorageLoadAsync fetchText JSON_parse = (Inr items, [extendedUrl])"
  using assms
  by (cases v) (simp_all add: hasExtendedShape_def getCurrentStorageLoadAsync_def)

lemma getCurrentStorageLoadAsync_fallback:
  assumes "fetchText extendedUrl = Some body"
    and "body = [] \<or> (\<exists>v. JSON_parse body = Some v \<and> \<not> hasExtendedShape v)"
  shows "getCurrentStorageLoadAsync fetchText JSON_parse
           = (fetchLegacy fetchText JSON_parse, [extendedUrl, legacyUrl])"
proof (cases "body = []")
  case True
  with assms(1) show ?thesis by (simp add: getCurrentStorageLoadAsync_def)
next
  case False
  with assms(2) obtain v where v: "JSON_parse body = Some v" "\<not> hasExtendedShape v" by blast
  from v(2) assms(1) False v(1) show ?thesis
    by (cases v) (simp_all add: hasExtendedShape_def getCurrentStorageLoadAsync_def)
qed

text \<open>
  C9, as the code has it. Let the request for the extended payload succeed with a body.
  If the body is non-empty and decodes to an array whose every element is an object with
  a numeric \<^verbatim>\<open>load\<close>, the client returns that array as it was decoded, and requests nothing
  else. If the body is empty, or decodes to a value of another shape, the client requests
  the legacy payload: an empty legacy body gives the empty array, without an error, and a
  legacy body that decodes to an array gives each element \<open>n\<close> wrapped as \<^verbatim>\<open>{load: n}\<close>.
  The client returns a result after the extended request alone iff the body is non-empty
  and decodes to an array of that shape.
\<close>

theorem getCurrentStorageLoadAsync_negotiation:
  assumes "fetchText extendedUrl = Some body"
  shows "(\<forall>items. body \<noteq> [] \<and> JSON_parse body = Some (JArray items) \<and>
                 list_all isExtendedItem items \<longrightarrow>
            getCurrentStorageLoadAsync fetchText JSON_parse = (Inr items, [extendedUrl]))
       \<and> (body = [] \<or> (\<exists>v. JSON_parse body = Some v \<and> \<not> hasExtendedShape v) \<longrightarrow>
            snd (getCurrentStorageLoadAsync fetchText JSON_parse) = [extendedUrl, legacyUrl] \<and>
            (fetchText legacyUrl = Some [] \<longrightarrow>
               fst (getCurrentStorageLoadAsync fetchText JSON_parse) = Inr []) \<and>
            (\<forall>result ns. fetchText legacyUrl = Some result \<and> result \<noteq> [] \<and>
                 JSON_parse result = Some (JArray ns) \<longrightarrow>
               fst (getCurrentStorageLoadAsync fetchText JSON_parse)
                 = Inr (map (\<lambda>n. JObject [(''load'', n)]) ns)))
       \<and> (snd (getCurrentStorageLoadAsync fetchText JSON_parse) = [extendedUrl] \<and>
          (\<exists>items. fst (getCurrentStorageLoadAsync fetchText JSON_parse) = Inr items)
          \<longleftrightarrow> body \<noteq> [] \<and> (\<exists>v. JSON_parse body = Some v \<and> hasExtendedShape v))"
proof -
  let ?r = "getCurrentStorageLoadAsync fetchText JSON_parse"
  have a: "?r = (Inr items, [extendedUrl])"
    if "body \<noteq> []" "JSON_parse body = Some (JArray items)" "list_all isExtendedItem items"
    for items
    using assms that by (simp add: getCurrentStorageLoadAsync_def)
  have b: "?r = (fetchLegacy fetchText JSON_parse, [extendedUrl, legacyUrl])"
    if "body = [] \<or> (\<exists>v. JSON_parse body = Some v \<and> \<not> hasExtendedShape v)"
    using assms that by (rule getCurrentStorageLoadAsync_fallback)
  have l1: "fetchLegacy fetchText JSON_parse = Inr []" if "fetchText legacyUrl = Some []"
    using that by (simp add: fetchLegacy_def)
  have l2: "fetchLegacy fetchText JSON_parse = Inr (map (\<lambda>n. JObject [(''load'', n)]) ns)"
    if "fetchText legacyUrl = Some result" "result \<noteq> []" "JSON_parse result = Some (JArray ns)"
    for result ns
    using that by (simp add: fetchLegacy_def wrapLegacy_def)
  have c: "body \<noteq> [] \<and> (\<exists>v. JSON_parse body = Some v \<and> hasExtendedShape v)"
    if "snd ?r = [extendedUrl]" "\<exists>items. fst ?r = Inr items"
  proof (rule ccontr)
    assume n: "\<not> (body \<noteq> [] \<and> (\<exists>v. JSON_parse body = Some v \<and> hasExtendedShape v))"
    show False
    proof (cases "body = [] \<or> (\<exists>v. JSON_parse body = Some v \<and> \<not> hasExtendedShape v)")
      case True
      from b [OF True] that(1) show False by simp
    next
      case False
      with n have "body \<noteq> []" "JSON_parse body = None" by auto
      then have "?r = (Inl SyntaxError, [extendedUrl])"
        using assms by (simp add: getCurrentStorageLoadAsync_def)
      with that(2) show False by simp
    qed
  qed
  have p1: "\<forall>items. body \<noteq> [] \<and> JSON_parse body = Some (JArray items) \<and>
                 list_all isExtendedItem items \<longrightarrow> ?r = (Inr items, [extendedUrl])"
    using a by blast
  have p2: "body = [] \<or> (\<exists>v. JSON_parse body = Some v \<and> \<not> hasExtendedShape v) \<longrightarrow>
            snd ?r = [extendedUrl, legacyUrl] \<and>
            (fetchText legacyUrl = Some [] \<longrightarrow> fst ?r = Inr []) \<and>
            (\<forall>result ns. fetchText legacyUrl = Some result \<and> result \<noteq> [] \<and>
                 JSON_parse result = Some (JArray ns) \<longrightarrow>
               fst ?r = Inr (map (\<lambda>n. JObject [(''load'', n)]) ns))"
  proof
    assume h: "body = [] \<or> (\<exists>v. JSON_parse body = Some v \<and> \<not> hasExtendedShape v)"
    have r: "?r = (fetchLegacy fetchText JSON_parse, [extendedUrl, legacyUrl])"
      using h by (rule b)
    show "snd ?r = [extendedUrl, legacyUrl] \<and>
            (fetchText legacyUrl = Some [] \<longrightarrow> fst ?r = Inr []) \<and>
            (\<forall>result ns. fetchText legacyUrl = Some result \<and> result \<noteq> [] \<and>
                 JSON_parse result = Some (JArray ns) \<longrightarrow>
               fst ?r = Inr (map (\<lambda>n. JObject [(''load'', n)]) ns))"
      unfolding r fst_conv snd_conv using l1 l2 by blast
  qed
  have p3: "snd ?r = [extendedUrl] \<and> (\<exists>items. fst ?r = Inr items)
          \<longleftrightarrow> body \<noteq> [] \<and> (\<exists>v. JSON_parse body = Some v \<and> hasExtendedShape v)"
  proof
    assume "snd ?r = [extendedUrl] \<and> (\<exists>items. fst ?r = Inr items)"
    then show "body \<noteq> [] \<and> (\<exists>v. JSON_parse body = Some v \<and> hasExtendedShape v)"
      using c by blast
  next
    assume h: "body \<noteq> [] \<and> (\<exists>v. JSON_parse body = Some v \<and> hasExtendedShape v)"
    then obtain v where v: "JSON_parse body = Some v" "hasExtendedShape v" by blast
    from assms h v
    have "\<exists>items. v = JArray items \<and> ?r = (Inr items, [extendedUrl])"
      by (intro getCurrentStorageLoadAsync_extended) simp_all
    then show "snd ?r = [extendedUrl] \<and> (\<exists>items. fst ?r = Inr items)"
      by auto
  qed
  from p1 p2 p3 show ?thesis by (intro conjI)
qed

text \<open>
  Instances of C9 as amended: an empty extended body and the legacy body \<^verbatim>\<open>[100,-1]\<close>; an
  extended body of another shape and an empty legacy body; an extended body of the right
  shape.
\<close>

theorem getCurrentStorageLoadAsync_negotiation_witness:
  "serverEmptyExtended extendedUrl = Some []
   \<and> getCurrentStorageLoadAsync serverEmptyExtended exampleParse
       = (Inr [JObject [(''load'', JNumber 100)], JObject [(''load'', JNumber (- 1))]],
          [extendedUrl, legacyUrl])
   \<and> getCurrentStorageLoadAsync serverOtherShape exampleParse
       = (Inr [], [extendedUrl, legacyUrl])
   \<and> getCurrentStorageLoadAsync serverExtended exampleParse
       = (Inr [JObject [(''load'', JNumber 100), (''temperature'', JString ''hot'')],
               JObject [(''load'', JNumber (- 1))]],
          [extendedUrl])"
proof -
  have neq: "extendedUrl \<noteq> legacyUrl"
    by (simp add: extendedUrl_def legacyUrl_def)
  have e1: "serverEmptyExtended extendedUrl = Some []"
    by (simp add: serverEmptyExtended_def)
  have g1: "serverEmptyExtended legacyUrl = Some ''[100,-1]''" "''[100,-1]'' \<noteq> []"
    "exampleParse ''[100,-1]'' = Some (JArray [JNumber 100, JNumber (- 1)])"
    using neq by (simp_all add: serverEmptyExtended_def exampleParse_def)
  note T1 = getCurrentStorageLoadAsync_negotiation
    [where fetchText = serverEmptyExtended and JSON_parse = exampleParse, OF e1]
  from T1 have
    "snd (getCurrentStorageLoadAsync serverEmptyExtended exampleParse) = [extendedUrl, legacyUrl]"
    "serverEmptyExtended legacyUrl = Some ''[100,-1]'' \<and> ''[100,-1]'' \<noteq> [] \<and>
       exampleParse ''[100,-1]'' = Some (JArray [JNumber 100, JNumber (- 1)]) \<longrightarrow>
     fst (getCurrentStorageLoadAsync serverEmptyExtended exampleParse)
       = Inr (map (\<lambda>n. JObject [(''load'', n)]) [JNumber 100, JNumber (- 1)])"
    by blast+
  then have 1: "getCurrentStorageLoadAsync serverEmptyExtended exampleParse
       = (Inr [JObject [(''load'', JNumber 100)], JObject [(''load'', JNumber (- 1))]],
          [extendedUrl, legacyUrl])"
    using g1 by (simp add: prod_eq_iff)
  have e2: \<open>serverOtherShape extendedUrl = Some ''{"load":100}''\<close>
    by (simp add: serverOtherShape_def)
  have g2: "serverOtherShape legacyUrl = Some []"
    \<open>exampleParse ''{"load":100}'' = Some (JObject [(''load'', JNumber 100)])\<close>
    "\<not> hasExtendedShape (JObject [(''load'', JNumber 100)])"
    using neq by (simp_all add: serverOtherShape_def exampleParse_def hasExtendedShape_def)
  note T2 = getCurrentStorageLoadAsync_negotiation
    [where fetchText = serverOtherShape and JSON_parse = exampleParse, OF e2]
  from T2 g2 have
    "snd (getCurrentStorageLoadAsync serverOtherShape exampleParse) = [extendedUrl, legacyUrl]"
    "fst (getCurrentStorageLoadAsync serverOtherShape exampleParse) = Inr []"
    by blast+
  then have 2: "getCurrentStorageLoadAsync serverOtherShape exampleParse
       = (Inr [], [extendedUrl, legacyUrl])"
    by (simp add: prod_eq_iff)
  have e3: \<open>serverExtended extendedUrl
              = Some ''[{"load":100,"temperature":"hot"},{"load":-1}]''\<close>
    by (simp add: serverExtended_def)
  have g3: \<open>''[{"load":100,"temperature":"hot"},{"load":-1}]'' \<noteq> []\<close>
    \<open>exampleParse ''[{"load":100,"temperature":"hot"},{"load":-1}]''
       = Some (JArray [JObject [(''load'', JNumber 100), (''temperature'', JString ''hot'')],
                       JObject [(''load'', JNumber (- 1))]])\<close>
    "list_all isExtendedItem
       [JObject [(''load'', JNumber 100), (''temperature'', JString ''hot'')],
        JObject [(''load'', JNumber (- 1))]]"
    by (simp_all add: exampleParse_def isExtendedItem_def)
  note T3 = getCurrentStorageLoadAsync_negotiation
    [where fetchText = serverExtended and JSON_parse = exampleParse, OF e3]
  from T3 g3 have 3: "getCurrentStorageLoadAsync serverExtended exampleParse
       = (Inr [JObject [(''load'', JNumber 100), (''temperature'', JString ''hot'')],
               JObject [(''load'', JNumber (- 1))]],
          [extendedUrl])"
    by blast
  from e1 1 2 3 show ?thesis by simp
qed

text \<open>
  C9, as the claim states it, fails twice. The first element of the extended payload has a
  temperature that is not a number, and the client returns the element with it. And a
  non-empty body that does not decode is neither used nor replaced by the legacy payload:
  the error of \<^verbatim>\<open>JSON.parse\<close> reaches the caller and the legacy payload is not requested.
\<close>

theorem getCurrentStorageLoadAsync_counterexample:
  "getCurrentStorageLoadAsync serverExtended exampleParse
     = (Inr [JObject [(''load'', JNumber 100), (''temperature'', JString ''hot'')],
             JObject [(''load'', JNumber (- 1))]],
        [extendedUrl])
   \<and> serverNotFound extendedUrl = Some ''<pre>Cannot GET /load/storage-extended</pre>''
   \<and> exampleParse ''<pre>Cannot GET /load/storage-extended</pre>'' = None
   \<and> getCurrentStorageLoadAsync serverNotFound exampleParse = (Inl SyntaxError, [extendedUrl])"
  by code_simp

end
